theory Spec2Isabelle
  imports Main
begin

section \<open>Values of the host language\<close>

text \<open>
  The scripts read documents with \<open>JSON.parse\<close>. A parsed document is a \<open>json\<close> value.
  Numbers are the integers of magnitude below \<open>10^21\<close> (SDK levels, pixel sizes), which
  JavaScript prints in plain decimal; fractions and larger magnitudes, which it prints
  from their floating-point form, are not values of this type's intended range. An object
  is the list of its own properties in enumeration order, with distinct keys. The result
  of reading a property is a \<open>json option\<close>, where \<open>None\<close> is JavaScript's \<open>undefined\<close>.
  Strings are lists of 8-bit characters, read as ASCII text.
\<close>

datatype json =
    JNull
  | JBool bool
  | JNum int
  | JStr string
  | JArr "json list"
  | JObj "(string \<times> json) list"

type_synonym jsval = "json option"

text \<open>Truthiness: \<open>undefined\<close>, \<open>null\<close>, \<open>false\<close>, \<open>0\<close> and the empty string are falsy.\<close>

fun truthy :: "jsval \<Rightarrow> bool" where
  "truthy None = False"
| "truthy (Some JNull) = False"
| "truthy (Some (JBool b)) = b"
| "truthy (Some (JNum n)) = (n \<noteq> 0)"
| "truthy (Some (JStr s)) = (s \<noteq> [])"
| "truthy (Some (JArr xs)) = True"
| "truthy (Some (JObj kvs)) = True"

text \<open>
  Property reads. \<open>v.k\<close> raises a TypeError when \<open>v\<close> is \<open>undefined\<close> or \<open>null\<close>;
  \<open>v?.k\<close> yields \<open>undefined\<close> there. None of the property names the scripts read is
  \<open>length\<close>, an index or a prototype member, so a string, number, boolean or array has no
  such property.
\<close>

fun own_prop :: "json \<Rightarrow> string \<Rightarrow> jsval" where
  "own_prop (JObj kvs) k = map_of kvs k"
| "own_prop _ k = None"

fun get_prop :: "jsval \<Rightarrow> string \<Rightarrow> string + jsval" where
  "get_prop None k =
     Inl (''Cannot read properties of undefined (reading '' @ [CHR 0x27] @ k @ [CHR 0x27] @ '')'')"
| "get_prop (Some JNull) k =
     Inl (''Cannot read properties of null (reading '' @ [CHR 0x27] @ k @ [CHR 0x27] @ '')'')"
| "get_prop (Some v) k = Inr (own_prop v k)"

fun get_opt :: "jsval \<Rightarrow> string \<Rightarrow> jsval" where
  "get_opt None k = None"
| "get_opt (Some JNull) k = None"
| "get_opt (Some v) k = own_prop v k"

text \<open>Decimal rendering of integers, as template literals print them.\<close>

fun show_nat :: "nat \<Rightarrow> string" where
  "show_nat n = (if n < 10 then [''0123456789'' ! n]
                 else show_nat (n div 10) @ [''0123456789'' ! (n mod 10)])"

definition show_int :: "int \<Rightarrow> string" where
  "show_int i = (if i < 0 then CHR ''-'' # show_nat (nat (- i)) else show_nat (nat i))"

fun join :: "string \<Rightarrow> string list \<Rightarrow> string" where
  "join sep [] = []"
| "join sep [x] = x"
| "join sep (x # y # ys) = x @ sep @ join sep (y # ys)"

text \<open>
  \<open>ToString\<close>, as applied by a template literal and by \<open>RegExp.prototype.test\<close>. An
  array prints its elements separated by commas, with \<open>null\<close> elements empty. An object
  prints as \<open>[object Object]\<close> through the method it inherits; when it has an own property
  \<open>toString\<close>, that property hides the method, a parsed value is never callable, the
  inherited \<open>valueOf\<close> returns the object itself, and the conversion raises a TypeError.
  The result is \<open>Inr\<close> the text, or \<open>Inl\<close> the message of the error.
\<close>

definition not_primitive :: string where
  "not_primitive = ''Cannot convert object to primitive value''"

fun first_error :: "(string + 'a) list \<Rightarrow> string + 'a list" where
  "first_error [] = Inr []"
| "first_error (Inl m # rs) = Inl m"
| "first_error (Inr x # rs) = (case first_error rs of Inl m \<Rightarrow> Inl m | Inr xs \<Rightarrow> Inr (x # xs))"

fun js_toString :: "json \<Rightarrow> string + string" where
  "js_toString JNull = Inr ''null''"
| "js_toString (JBool b) = Inr (if b then ''true'' else ''false'')"
| "js_toString (JNum n) = Inr (show_int n)"
| "js_toString (JStr s) = Inr s"
| "js_toString (JArr xs) =
     (case first_error (map (\<lambda>x. if x = JNull then Inr [] else js_toString x) xs) of
        Inl m \<Rightarrow> Inl m
      | Inr texts \<Rightarrow> Inr (join '','' texts))"
| "js_toString (JObj kvs) =
     (if ''toString'' \<in> set (map fst kvs) then Inl not_primitive else Inr ''[object Object]'')"

definition interp :: "jsval \<Rightarrow> string + string" where
  "interp v = (case v of None \<Rightarrow> Inr ''undefined'' | Some j \<Rightarrow> js_toString j)"

text \<open>\<open>JSON.stringify\<close> of a parsed document.\<close>

definition hex_digit :: "nat \<Rightarrow> char" where
  "hex_digit n = ''0123456789abcdef'' ! (n mod 16)"

definition escape_char :: "char \<Rightarrow> string" where
  "escape_char c =
     (if c = CHR 0x22 then [CHR 0x5C, CHR 0x22]
      else if c = CHR 0x5C then [CHR 0x5C, CHR 0x5C]
      else if c = CHR 0x08 then [CHR 0x5C, CHR ''b'']
      else if c = CHR 0x09 then [CHR 0x5C, CHR ''t'']
      else if c = CHR 0x0A then [CHR 0x5C, CHR ''n'']
      else if c = CHR 0x0C then [CHR 0x5C, CHR ''f'']
      else if c = CHR 0x0D then [CHR 0x5C, CHR ''r'']
      else if of_char c < (32::nat)
        then [CHR 0x5C, CHR ''u'', CHR ''0'', CHR ''0'',
              hex_digit (of_char c div 16), hex_digit (of_char c)]
      else [c])"

definition quote :: "string \<Rightarrow> string" where
  "quote s = CHR 0x22 # concat (map escape_char s) @ [CHR 0x22]"

fun JSON_stringify :: "json \<Rightarrow> string" where
  "JSON_stringify JNull = ''null''"
| "JSON_stringify (JBool b) = (if b then ''true'' else ''false'')"
| "JSON_stringify (JNum n) = show_int n"
| "JSON_stringify (JStr s) = quote s"
| "JSON_stringify (JArr xs) = ''['' @ join '','' (map JSON_stringify xs) @ '']''"
| "JSON_stringify (JObj kvs) =
     ''{'' @ join '','' (map (\<lambda>kv. quote (fst kv) @ '':'' @ JSON_stringify (snd kv)) kvs) @ ''}''"

text \<open>
  The relational comparison \<open>v < n\<close> against a number. A number compares by value and a
  boolean as 0 or 1. A string operand goes through \<open>StringToNumber\<close>, which rounds to a
  floating-point value; that conversion is the parameter \<open>lt\<close>, with \<open>lt s n\<close> standing for
  \<open>Number(s) < n\<close>. An array or object is first turned into its string, which raises as
  \<open>ToString\<close> does. \<open>undefined\<close> converts to NaN, which compares false.
\<close>

fun js_lt :: "(string \<Rightarrow> int \<Rightarrow> bool) \<Rightarrow> jsval \<Rightarrow> int \<Rightarrow> string + bool" where
  "js_lt lt None n = Inr False"
| "js_lt lt (Some JNull) n = Inr (0 < n)"
| "js_lt lt (Some (JBool b)) n = Inr ((if b then 1 else 0) < n)"
| "js_lt lt (Some (JNum m)) n = Inr (m < n)"
| "js_lt lt (Some (JStr s)) n = Inr (lt s n)"
| "js_lt lt (Some (JArr xs)) n =
     (case js_toString (JArr xs) of Inl m \<Rightarrow> Inl m | Inr text \<Rightarrow> Inr (lt text n))"
| "js_lt lt (Some (JObj kvs)) n =
     (case js_toString (JObj kvs) of Inl m \<Rightarrow> Inl m | Inr text \<Rightarrow> Inr (lt text n))"

text \<open>
  The pattern \<open>/^(com|br)\.(example|test|demo)\./i\<close>: anchored at the start, ASCII letters
  compared without regard to case.
\<close>

definition to_lower :: "char \<Rightarrow> char" where
  "to_lower c = (case map_of (zip ''ABCDEFGHIJKLMNOPQRSTUVWXYZ'' ''abcdefghijklmnopqrstuvwxyz'') c of
                   Some l \<Rightarrow> l | None \<Rightarrow> c)"

fun startsWith :: "string \<Rightarrow> string \<Rightarrow> bool" where
  "startsWith [] s = True"
| "startsWith (p # ps) [] = False"
| "startsWith (p # ps) (c # cs) = (p = c \<and> startsWith ps cs)"

definition invalidDomainRegex_test :: "string \<Rightarrow> bool" where
  "invalidDomainRegex_test s =
     list_ex (\<lambda>p. list_ex (\<lambda>q. startsWith (p @ ''.'' @ q @ ''.'') (map to_lower s))
                     [''example'', ''test'', ''demo''])
             [''com'', ''br'']"

definition stringify :: "jsval \<Rightarrow> string" where
  "stringify v = (case v of None \<Rightarrow> ''undefined'' | Some j \<Rightarrow> JSON_stringify j)"

section \<open>Findings and the failure flag\<close>

text \<open>
  \<open>logStatus(status, message)\<close> prints one line and sets the module variable \<open>hasFails\<close>
  when the status is \<open>[FAIL]\<close>. Every call site passes one of three status literals. The
  output keeps each line as written: a status line by its two arguments (the colour
  escapes of the rendering are left out), \<open>console.log\<close> and \<open>console.error\<close> lines by
  their text.
\<close>

datatype severity = PASS | WARN | FAIL

datatype line = Status severity string | Log string | Err string

record state =
  out :: "line list"
  hasFails :: bool

definition init :: state where
  "init = \<lparr>out = [], hasFails = False\<rparr>"

definition logStatus :: "severity \<Rightarrow> string \<Rightarrow> state \<Rightarrow> state" where
  "logStatus status message st =
     st\<lparr>out := out st @ [Status status message],
        hasFails := (if status = FAIL then True else hasFails st)\<rparr>"

definition console_log :: "string \<Rightarrow> state \<Rightarrow> state" where
  "console_log s st = st\<lparr>out := out st @ [Log s]\<rparr>"

definition console_error :: "string \<Rightarrow> state \<Rightarrow> state" where
  "console_error s st = st\<lparr>out := out st @ [Err s]\<rparr>"

text \<open>
  A function of the scripts either returns (\<open>Next\<close>), ends the process with
  \<open>process.exit(code)\<close> (\<open>Exit\<close>), or lets an exception escape (\<open>Throw\<close>).
\<close>

datatype 'a res = Next 'a state | Exit nat state | Throw string state

fun final :: "'a res \<Rightarrow> state" where
  "final (Next x st) = st"
| "final (Exit c st) = st"
| "final (Throw e st) = st"

fun bind :: "'a res \<Rightarrow> ('a \<Rightarrow> state \<Rightarrow> 'b res) \<Rightarrow> 'b res" where
  "bind (Next x st) f = f x st"
| "bind (Exit c st) f = Exit c st"
| "bind (Throw e st) f = Throw e st"

text \<open>
  The termination status of the process: the argument of \<open>process.exit\<close>, or 1 when an
  exception escapes.
\<close>

fun status :: "'a res \<Rightarrow> nat" where
  "status (Next x st) = 0"
| "status (Exit c st) = c"
| "status (Throw e st) = 1"

definition findings :: "state \<Rightarrow> (severity \<times> string) list" where
  "findings st = concat (map (\<lambda>l. case l of Status s m \<Rightarrow> [(s, m)] | _ \<Rightarrow> []) (out st))"

text \<open>
  Whether a FAIL finding was emitted, read off the output; and the agreement of the flag
  with it.
\<close>

definition has_FAIL :: "state \<Rightarrow> bool" where
  "has_FAIL st = (FAIL \<in> set (map fst (findings st)))"

definition consistent :: "state \<Rightarrow> bool" where
  "consistent st = (hasFails st = has_FAIL st)"

section \<open>Configuration rules, direct-parse script\<close>

text \<open>
  The rules of \<open>validateAppJson\<close>, one definition for each block of the function, in the
  order of the source. Each is given the \<open>expo\<close> object, which is truthy where they run, so
  a plain read of one of its properties cannot raise. A rule that prints a configured
  value, or tests it against the pattern, raises when the value has no string form.
\<close>

definition androidPackage_rule :: "jsval \<Rightarrow> state \<Rightarrow> unit res" where
  "androidPackage_rule expo st =
     (let androidPackage = get_opt (get_opt expo ''android'') ''package'' in
      if \<not> truthy androidPackage then Next () (logStatus FAIL ''Missing android.package.'' st)
      else case interp androidPackage of
        Inl m \<Rightarrow> Throw m st
      | Inr text \<Rightarrow>
          if invalidDomainRegex_test text
            then Next () (logStatus FAIL (''Invalid/test android.package: '' @ text) st)
          else Next () (logStatus PASS (''Valid android.package: '' @ text) st))"

definition iosBundle_rule :: "jsval \<Rightarrow> state \<Rightarrow> unit res" where
  "iosBundle_rule expo st =
     (let iosBundle = get_opt (get_opt expo ''ios'') ''bundleIdentifier'' in
      if \<not> truthy iosBundle then Next () (logStatus FAIL ''Missing ios.bundleIdentifier.'' st)
      else case interp iosBundle of
        Inl m \<Rightarrow> Throw m st
      | Inr text \<Rightarrow>
          if invalidDomainRegex_test text
            then Next () (logStatus FAIL (''Invalid/test ios.bundleIdentifier: '' @ text) st)
          else Next () (logStatus PASS (''Valid ios.bundleIdentifier: '' @ text) st))"

definition scheme_rule :: "jsval \<Rightarrow> state \<Rightarrow> unit res" where
  \<open>scheme_rule expo st =
     (let scheme = get_opt expo ''scheme'' in
      if \<not> truthy scheme
        then Next () (logStatus WARN ''Missing "scheme" property. Deep links/OAuth might not work.'' st)
      else case interp scheme of
        Inl m \<Rightarrow> Throw m st
      | Inr text \<Rightarrow> Next () (logStatus PASS (''Scheme configured: '' @ text) st))\<close>

definition is_fingerprint :: "jsval \<Rightarrow> bool" where
  "is_fingerprint runtimeVersion =
     (case runtimeVersion of
        Some (JObj kvs) \<Rightarrow> map_of kvs ''policy'' = Some (JStr ''fingerprint'')
      | _ \<Rightarrow> False)"

definition runtimeVersion_rule :: "jsval \<Rightarrow> state \<Rightarrow> state" where
  \<open>runtimeVersion_rule expo st =
     (let runtimeVersion = get_opt expo ''runtimeVersion'' in
      if \<not> truthy runtimeVersion
        then logStatus WARN ''Missing "runtimeVersion". Required if using EAS Update.'' st
      else if is_fingerprint runtimeVersion
        then logStatus PASS ''runtimeVersion configured with fingerprint policy.'' st
      else logStatus WARN
             (''runtimeVersion configured as "'' @ stringify runtimeVersion
              @ ''". Prefer {"policy": "fingerprint"} for safer OTAs.'') st)\<close>

definition targetSdk_rule :: "(string \<Rightarrow> int \<Rightarrow> bool) \<Rightarrow> jsval \<Rightarrow> state \<Rightarrow> unit res" where
  "targetSdk_rule lt expo st =
     (let targetSdk = get_opt (get_opt expo ''android'') ''targetSdkVersion'' in
      if \<not> truthy targetSdk
        then Next () (logStatus WARN
               ''targetSdkVersion not explicitly set. Expo will use the SDK default.'' st)
      else case js_lt lt targetSdk 35 of
        Inl m \<Rightarrow> Throw m st
      | Inr below \<Rightarrow>
          (case interp targetSdk of
             Inl m \<Rightarrow> Throw m st
           | Inr text \<Rightarrow>
               if below
                 then Next () (logStatus FAIL
                        (''targetSdkVersion is '' @ text
                         @ ''. API 35+ is mandatory per recent Play Store rules.'') st)
               else Next () (logStatus PASS (''Valid targetSdkVersion: '' @ text) st)))"

definition newArch_rule :: "jsval \<Rightarrow> state \<Rightarrow> state" where
  "newArch_rule expo st =
     (if get_opt expo ''newArchEnabled'' = Some (JBool False)
        then logStatus WARN
               ''newArchEnabled is forced to false. Transitioning to Fabric/TurboModules is highly recommended in SDK 55+.'' st
      else logStatus PASS ''New Architecture (newArchEnabled) is not disabled.'' st)"

definition validateAppJson :: "(string \<Rightarrow> int \<Rightarrow> bool) \<Rightarrow> json \<Rightarrow> state \<Rightarrow> unit res" where
  "validateAppJson lt appJson st0 =
     (let st = console_log (CHR 0x0A # ''--- Validating app.json ---'') st0 in
      case get_prop (Some appJson) ''expo'' of
        Inl e \<Rightarrow> Throw e st
      | Inr expo \<Rightarrow>
          if \<not> truthy expo
            then Next () (logStatus FAIL (CHR 0x27 # ''expo'' @ CHR 0x27 # '' object not found in app.json.'') st)
          else
            bind (androidPackage_rule expo st)
              (\<lambda>_ st1. bind (iosBundle_rule expo st1)
                (\<lambda>_ st2. bind (scheme_rule expo st2)
                  (\<lambda>_ st3. bind (targetSdk_rule lt expo (runtimeVersion_rule expo st3))
                    (\<lambda>_ st4. Next () (newArch_rule expo st4))))))"

section \<open>Build-profile rules\<close>

text \<open>
  \<open>Object.keys\<close>: the own enumerable property names. A string and an array have their
  indices; a number or boolean has none.
\<close>

fun Object_keys :: "json \<Rightarrow> string list" where
  "Object_keys (JObj kvs) = map fst kvs"
| "Object_keys (JStr s) = map show_nat [0..<length s]"
| "Object_keys (JArr xs) = map show_nat [0..<length xs]"
| "Object_keys _ = []"

definition autoIncrement_rule :: "jsval \<Rightarrow> state \<Rightarrow> state" where
  "autoIncrement_rule prodProfile st =
     (if get_opt prodProfile ''autoIncrement'' \<noteq> Some (JBool True)
        then logStatus FAIL
               ''build.production.autoIncrement is not set to true. Builds might overwrite existing versions in the stores.'' st
      else logStatus PASS ''autoIncrement is active in the production profile.'' st)"

definition envVars_rule :: "jsval \<Rightarrow> state \<Rightarrow> state" where
  "envVars_rule prodProfile st =
     (let envVars = (case get_opt prodProfile ''env'' of
                       None \<Rightarrow> JObj []
                     | Some v \<Rightarrow> if truthy (Some v) then v else JObj []) in
      if length (Object_keys envVars) = 0
        then logStatus WARN
               ''No environment variables (env) detected in the production profile. Ensure your base API is not pointing to localhost/staging.'' st
      else logStatus PASS
             (''Environment variables detected: '' @ join '', '' (Object_keys envVars)) st)"

definition validateEasJson :: "json \<Rightarrow> state \<Rightarrow> state" where
  \<open>validateEasJson easJson st0 =
     (let st = console_log (CHR 0x0A # ''--- Validating eas.json ---'') st0;
          prodProfile = get_opt (get_opt (Some easJson) ''build'') ''production'' in
      if \<not> truthy prodProfile
        then logStatus FAIL ''"build.production" profile not found in eas.json.'' st
      else envVars_rule prodProfile (autoIncrement_rule prodProfile st))\<close>

section \<open>The environment of a run\<close>

text \<open>
  What the scripts ask of the outside world, as one snapshot: the two optional command-line
  arguments, \<open>path.join(process.cwd(), p)\<close>, \<open>fs.existsSync\<close>, the result of
  \<open>JSON.parse(fs.readFileSync(p, 'utf-8'))\<close> (\<open>Inl m\<close> when either raises an error with
  message \<open>m\<close>), the output of \<open>git status --porcelain\<close> (\<open>None\<close> when \<open>execSync\<close>
  raises), the parsed output of \<open>npx expo config --json\<close> (\<open>None\<close> when \<open>execSync\<close> or
  \<open>JSON.parse\<close> raises), and the string-to-number comparison of the runtime. The asset
  script reads and parses in two steps, \<open>fs.readFileSync\<close> (\<open>Inl m\<close> when it raises) and
  \<open>JSON.parse\<close> (\<open>None\<close> when it raises), and probes images with the optional package
  \<open>image-size\<close>: \<open>sizeOf\<close> is \<open>None\<close> when \<open>require\<close> raises, and otherwise maps a path to
  the width and height of the image, or to the message of the error it raises.
\<close>

record env =
  argv2 :: "string option"
  argv3 :: "string option"
  join_cwd :: "string \<Rightarrow> string"
  existsSync :: "string \<Rightarrow> bool"
  readJson :: "string \<Rightarrow> string + json"
  git_status :: "string option"
  expo_config :: "json option"
  str_lt :: "string \<Rightarrow> int \<Rightarrow> bool"
  readFileSync :: "string \<Rightarrow> string + string"
  JSON_parse :: "string \<Rightarrow> json option"
  sizeOf :: "(string \<Rightarrow> string + int \<times> int) option"

text \<open>\<open>process.argv[i] || path.join(process.cwd(), name)\<close>: an empty argument is falsy.\<close>

definition arg_or_default :: "env \<Rightarrow> string option \<Rightarrow> string \<Rightarrow> string" where
  "arg_or_default e arg name =
     (case arg of None \<Rightarrow> join_cwd e name
      | Some p \<Rightarrow> if p = [] then join_cwd e name else p)"

definition appJsonPath :: "env \<Rightarrow> string" where
  "appJsonPath e = arg_or_default e (argv2 e) ''app.json''"

definition easJsonPath :: "env \<Rightarrow> string" where
  "easJsonPath e = arg_or_default e (argv3 e) ''eas.json''"

definition red :: "string \<Rightarrow> string" where
  "red s = CHR 0x1B # ''[31m'' @ s @ CHR 0x1B # ''[0m''"

definition green :: "string \<Rightarrow> string" where
  "green s = CHR 0x1B # ''[32m'' @ s @ CHR 0x1B # ''[0m''"

text \<open>
  The check mark of the success line, in UTF-8. The other scripts hold the same three
  bytes decoded as Windows-1252 and encoded again, seven bytes.
\<close>

definition check_mark :: string where
  "check_mark = [CHR 0xE2, CHR 0x9C, CHR 0x93]"

definition check_mark_garbled :: string where
  "check_mark_garbled = [CHR 0xC3, CHR 0xA2, CHR 0xC5, CHR 0x93, CHR 0xE2, CHR 0x80, CHR 0x9C]"

text \<open>\<open>String.prototype.trim\<close> on ASCII text.\<close>

definition is_space :: "char \<Rightarrow> bool" where
  "is_space c = (c \<in> set [CHR 0x09, CHR 0x0A, CHR 0x0B, CHR 0x0C, CHR 0x0D, CHR 0x20])"

definition trim :: "string \<Rightarrow> string" where
  "trim s = rev (dropWhile is_space (rev (dropWhile is_space s)))"

section \<open>Foundation checks, direct-parse script\<close>

definition checkLevelZeroPointFive :: "env \<Rightarrow> state \<Rightarrow> unit res" where
  \<open>checkLevelZeroPointFive e st0 =
     (let st = console_log (CHR 0x0A # ''--- Level 0.5: Environment Validation ---'') st0 in
      if \<not> existsSync e ''package.json''
        then Exit 1 (logStatus FAIL ''package.json not found. Are you in the right directory?'' st)
      else case readJson e ''package.json'' of
        Inl m \<Rightarrow> Throw m st
      | Inr pkg \<Rightarrow>
          (case get_prop (Some pkg) ''dependencies'' of
             Inl m \<Rightarrow> Throw m st
           | Inr dependencies \<Rightarrow>
               if \<not> truthy dependencies \<or> \<not> truthy (get_opt dependencies ''expo'')
                 then Exit 1 (logStatus FAIL
                        ''This does not appear to be an Expo project. Missing "expo" in dependencies.'' st)
               else
                 (let st1 = logStatus PASS
                        ''Expo project detected (found "expo" in package.json dependencies).'' st in
                  if \<not> existsSync e ''node_modules''
                    then Exit 1 (logStatus FAIL
                           ''node_modules not found. Please run npm/yarn/bun install before running the preflight check.'' st1)
                  else Next () (logStatus PASS ''node_modules directory found.'' st1))))\<close>

definition projectId_rule :: "jsval \<Rightarrow> state \<Rightarrow> unit res" where
  \<open>projectId_rule expo st =
     (let projectId = get_opt (get_opt (get_opt expo ''extra'') ''eas'') ''projectId'' in
      if \<not> truthy projectId
        then Next () (logStatus FAIL
               ''Missing expo.extra.eas.projectId in app.json. You must run "eas init" to link this project to Expo.'' st)
      else case interp projectId of
        Inl m \<Rightarrow> Throw m st
      | Inr text \<Rightarrow> Next () (logStatus PASS (''Project linked to EAS (ID: '' @ text @ '').'') st))\<close>

definition lockfiles :: "string list" where
  "lockfiles = [''package-lock.json'', ''yarn.lock'', ''pnpm-lock.yaml'', ''bun.lockb'']"

definition lockfile_rule :: "env \<Rightarrow> state \<Rightarrow> state" where
  "lockfile_rule e st =
     (let hasLockfile = list_ex (\<lambda>file. existsSync e (join_cwd e file)) lockfiles in
      if \<not> hasLockfile
        then logStatus FAIL
               ''No lockfile found (package-lock.json, yarn.lock, etc.). Cloud builds will be unpredictable. Please generate and commit a lockfile.'' st
      else logStatus PASS ''Lockfile detected.'' st)"

definition git_rule :: "env \<Rightarrow> state \<Rightarrow> state" where
  "git_rule e st =
     (case git_status e of
        Some stdout \<Rightarrow>
          (let gitStatus = trim stdout in
           if length gitStatus > 0
             then logStatus WARN
                    ''You have uncommitted Git changes. EAS Build uploads your committed code by default. Uncommitted changes might not be included in the build!'' st
           else logStatus PASS ''Git working tree is clean.'' st)
      | None \<Rightarrow>
          logStatus WARN ''Could not check Git status. Ensure you are in a valid Git repository.'' st)"

definition checkLevelZeroBasics :: "env \<Rightarrow> json \<Rightarrow> state \<Rightarrow> unit res" where
  \<open>checkLevelZeroBasics e appJson st0 =
     (let st = console_log (CHR 0x0A # ''--- Level 0: Foundation Checks ---'') st0 in
      if \<not> existsSync e (easJsonPath e)
        then Exit 1
               (console_error
                  (red ''[!] Critical failure. Run "eas build:configure" and try again.'' @ [CHR 0x0A])
                  (logStatus FAIL ''eas.json not found! You must run "eas build:configure" first.'' st))
      else
        (let st1 = logStatus PASS ''eas.json exists.'' st in
         case get_prop (Some appJson) ''expo'' of
           Inl m \<Rightarrow> Throw m st1
         | Inr expo \<Rightarrow>
             bind (projectId_rule expo st1)
               (\<lambda>_ st2. Next () (git_rule e (lockfile_rule e st2)))))\<close>

section \<open>The run, direct-parse script\<close>

definition read_app :: "env \<Rightarrow> state \<Rightarrow> json res" where
  "read_app e st =
     (case readJson e (appJsonPath e) of
        Inl m \<Rightarrow> Exit 1 (logStatus FAIL (''Error reading '' @ appJsonPath e @ '': '' @ m) st)
      | Inr appJson \<Rightarrow> Next appJson st)"

definition read_eas :: "env \<Rightarrow> state \<Rightarrow> state" where
  "read_eas e st =
     (case readJson e (easJsonPath e) of
        Inl m \<Rightarrow> logStatus FAIL (''Error reading '' @ easJsonPath e @ '': '' @ m) st
      | Inr easJson \<Rightarrow> validateEasJson easJson st)"

definition summary :: "state \<Rightarrow> unit res" where
  "summary st0 =
     (let st = console_log (CHR 0x0A # ''----------------------------------------'') st0 in
      if hasFails st
        then Exit 1 (console_error
               (red ''[!] Preflight failed. Fix the [FAIL] errors above before running the build.''
                @ [CHR 0x0A]) st)
      else Exit 0 (console_log
             (green (''['' @ check_mark @ ''] Configuration preflight completed successfully.'')
              @ [CHR 0x0A]) st))"

text \<open>
  \<open>run\<close> in two parts: everything before the separator line, and the summary with the
  final \<open>process.exit\<close>. The process ends early when the first part does not return.
\<close>

definition checks :: "env \<Rightarrow> unit res" where
  "checks e =
     bind (checkLevelZeroPointFive e (console_log (''Starting Expo Build Preflight...'' @ [CHR 0x0A]) init))
       (\<lambda>_ st1. bind (read_app e st1)
         (\<lambda>appJson st2. bind (checkLevelZeroBasics e appJson st2)
           (\<lambda>_ st3. bind (validateAppJson (str_lt e) appJson st3)
             (\<lambda>_ st4. Next () (read_eas e st4)))))"

definition run :: "env \<Rightarrow> unit res" where
  "run e = bind (checks e) (\<lambda>_ st. summary st)"

fun returns :: "'a res \<Rightarrow> bool" where
  "returns (Next x st) = True"
| "returns (Exit c st) = False"
| "returns (Throw m st) = False"

definition fatal :: "env \<Rightarrow> bool" where
  "fatal e = (\<not> returns (checks e))"

section \<open>The script that resolves the configuration through the Expo CLI\<close>

text \<open>
  A second script runs the same catalogue on the output of \<open>npx expo config --json\<close>. Its
  functions carry the suffix \<open>_cli\<close>. It has no version-control check, and its rules
  differ from the direct-parse script in their messages and in the severity of a missing
  target SDK.
\<close>

definition checkLevelZeroPointFive_cli :: "env \<Rightarrow> state \<Rightarrow> unit res" where
  \<open>checkLevelZeroPointFive_cli e st0 =
     (let st = console_log (CHR 0x0A # ''--- Level 0.5: Environment Validation ---'') st0 in
      if \<not> existsSync e ''package.json''
        then Exit 1 (logStatus FAIL ''package.json not found. Are you in the right directory?'' st)
      else case readJson e ''package.json'' of
        Inl m \<Rightarrow> Throw m st
      | Inr pkg \<Rightarrow>
          (case get_prop (Some pkg) ''dependencies'' of
             Inl m \<Rightarrow> Throw m st
           | Inr dependencies \<Rightarrow>
               if \<not> truthy dependencies \<or> \<not> truthy (get_opt dependencies ''expo'')
                 then Exit 1 (logStatus FAIL
                        ''This does not appear to be an Expo project. Missing "expo" in dependencies.'' st)
               else
                 (let st1 = logStatus PASS
                        ''Expo project detected (found "expo" in dependencies).'' st in
                  if \<not> existsSync e ''node_modules''
                    then Exit 1 (logStatus FAIL
                           ''node_modules not found. Run npm/yarn/bun install.'' st1)
                  else Next () (logStatus PASS ''node_modules directory found.'' st1))))\<close>

text \<open>
  \<open>getResolvedExpoConfig\<close>: everything between the subprocess call and the return sits
  in one \<open>try\<close> block, so a TypeError on a \<open>null\<close> document ends in the same \<open>catch\<close>.
\<close>

definition resolve_failed :: "state \<Rightarrow> json res" where
  "resolve_failed st =
     Exit 1 (logStatus FAIL
       ''Failed to evaluate Expo config. Ensure your app.config.js has no syntax errors.'' st)"

definition getResolvedExpoConfig :: "env \<Rightarrow> state \<Rightarrow> json res" where
  "getResolvedExpoConfig e st0 =
     (let st = console_log (CHR 0x0A # ''--- Resolving Expo Configuration ---'') st0 in
      case expo_config e of
        None \<Rightarrow> resolve_failed st
      | Some parsed \<Rightarrow>
          (case get_prop (Some parsed) ''exp'' of
             Inl m \<Rightarrow> resolve_failed st
           | Inr exp \<Rightarrow>
               (let expoConfig = (case exp of None \<Rightarrow> parsed
                                  | Some v \<Rightarrow> if truthy (Some v) then v else parsed) in
                if \<not> truthy (Some expoConfig) \<or> \<not> truthy (get_opt (Some expoConfig) ''slug'')
                  then resolve_failed st
                else Next (JObj [(''expo'', expoConfig)])
                       (logStatus PASS ''Configuration evaluated successfully.'' st))))"

definition androidPackage_rule_cli :: "jsval \<Rightarrow> state \<Rightarrow> unit res" where
  "androidPackage_rule_cli expo st =
     (let androidPackage = get_opt (get_opt expo ''android'') ''package'' in
      if \<not> truthy androidPackage then Next () (logStatus FAIL ''Missing android.package.'' st)
      else case interp androidPackage of
        Inl m \<Rightarrow> Throw m st
      | Inr text \<Rightarrow>
          if invalidDomainRegex_test text
            then Next () (logStatus FAIL (''Invalid android.package: '' @ text) st)
          else Next () (logStatus PASS (''Valid android.package: '' @ text) st))"

definition iosBundle_rule_cli :: "jsval \<Rightarrow> state \<Rightarrow> unit res" where
  "iosBundle_rule_cli expo st =
     (let iosBundle = get_opt (get_opt expo ''ios'') ''bundleIdentifier'' in
      if \<not> truthy iosBundle then Next () (logStatus FAIL ''Missing ios.bundleIdentifier.'' st)
      else case interp iosBundle of
        Inl m \<Rightarrow> Throw m st
      | Inr text \<Rightarrow>
          if invalidDomainRegex_test text
            then Next () (logStatus FAIL (''Invalid ios.bundleIdentifier: '' @ text) st)
          else Next () (logStatus PASS (''Valid ios.bundleIdentifier: '' @ text) st))"

definition scheme_rule_cli :: "jsval \<Rightarrow> state \<Rightarrow> unit res" where
  \<open>scheme_rule_cli expo st =
     (let scheme = get_opt expo ''scheme'' in
      if \<not> truthy scheme then Next () (logStatus WARN ''Missing "scheme" property.'' st)
      else case interp scheme of
        Inl m \<Rightarrow> Throw m st
      | Inr text \<Rightarrow> Next () (logStatus PASS (''Scheme configured: '' @ text) st))\<close>

definition runtimeVersion_rule_cli :: "jsval \<Rightarrow> state \<Rightarrow> state" where
  \<open>runtimeVersion_rule_cli expo st =
     (let runtimeVersion = get_opt expo ''runtimeVersion'' in
      if \<not> truthy runtimeVersion then logStatus WARN ''Missing "runtimeVersion".'' st
      else if is_fingerprint runtimeVersion
        then logStatus PASS ''runtimeVersion uses fingerprint policy.'' st
      else logStatus WARN ''Prefer {"policy": "fingerprint"} for runtimeVersion.'' st)\<close>

definition targetSdk_rule_cli :: "(string \<Rightarrow> int \<Rightarrow> bool) \<Rightarrow> jsval \<Rightarrow> state \<Rightarrow> unit res" where
  "targetSdk_rule_cli lt expo st =
     (let targetSdk = get_opt (get_opt expo ''android'') ''targetSdkVersion'' in
      if \<not> truthy targetSdk
        then Next () (logStatus FAIL ''targetSdkVersion is missing. API 35 is mandatory.'' st)
      else case js_lt lt targetSdk 35 of
        Inl m \<Rightarrow> Throw m st
      | Inr below \<Rightarrow>
          (case interp targetSdk of
             Inl m \<Rightarrow> Throw m st
           | Inr text \<Rightarrow>
               if below
                 then Next () (logStatus FAIL
                        (''targetSdkVersion is '' @ text @ ''. API 35 is mandatory.'') st)
               else Next () (logStatus PASS (''Valid targetSdkVersion: '' @ text) st)))"

definition newArch_rule_cli :: "jsval \<Rightarrow> state \<Rightarrow> state" where
  "newArch_rule_cli expo st =
     (if get_opt expo ''newArchEnabled'' = Some (JBool False)
        then logStatus WARN ''newArchEnabled is false. Fabric is recommended in SDK 55+.'' st
      else logStatus PASS ''New Architecture not disabled.'' st)"

text \<open>
  This \<open>validateAppJson\<close> has no guard on \<open>expo\<close>: its first read, \<open>expo.android\<close>, raises
  when \<open>expo\<close> is \<open>undefined\<close> or \<open>null\<close>.
\<close>

definition validateAppJson_cli :: "(string \<Rightarrow> int \<Rightarrow> bool) \<Rightarrow> json \<Rightarrow> state \<Rightarrow> unit res" where
  "validateAppJson_cli lt appJson st0 =
     (let st = console_log (CHR 0x0A # ''--- Validating Config Rules ---'') st0 in
      case get_prop (Some appJson) ''expo'' of
        Inl m \<Rightarrow> Throw m st
      | Inr expo \<Rightarrow>
          (case get_prop expo ''android'' of
             Inl m \<Rightarrow> Throw m st
           | Inr android \<Rightarrow>
               bind (androidPackage_rule_cli expo st)
                 (\<lambda>_ st1. bind (iosBundle_rule_cli expo st1)
                   (\<lambda>_ st2. bind (scheme_rule_cli expo st2)
                     (\<lambda>_ st3. bind (targetSdk_rule_cli lt expo (runtimeVersion_rule_cli expo st3))
                       (\<lambda>_ st4. Next () (newArch_rule_cli expo st4)))))))"

definition autoIncrement_rule_cli :: "jsval \<Rightarrow> state \<Rightarrow> state" where
  "autoIncrement_rule_cli prodProfile st =
     (if get_opt prodProfile ''autoIncrement'' \<noteq> Some (JBool True)
        then logStatus FAIL ''build.production.autoIncrement is not true.'' st
      else logStatus PASS ''autoIncrement is active in production.'' st)"

definition envVars_rule_cli :: "jsval \<Rightarrow> state \<Rightarrow> state" where
  "envVars_rule_cli prodProfile st =
     (let envVars = (case get_opt prodProfile ''env'' of
                       None \<Rightarrow> JObj []
                     | Some v \<Rightarrow> if truthy (Some v) then v else JObj []) in
      if length (Object_keys envVars) = 0
        then logStatus WARN ''No env variables detected in production profile.'' st
      else logStatus PASS
             (''Environment variables detected: '' @ join '', '' (Object_keys envVars)) st)"

definition validateEasJson_cli :: "json \<Rightarrow> state \<Rightarrow> state" where
  \<open>validateEasJson_cli easJson st0 =
     (let st = console_log (CHR 0x0A # ''--- Validating eas.json ---'') st0;
          prodProfile = get_opt (get_opt (Some easJson) ''build'') ''production'' in
      if \<not> truthy prodProfile
        then logStatus FAIL ''"build.production" profile not found in eas.json.'' st
      else envVars_rule_cli prodProfile (autoIncrement_rule_cli prodProfile st))\<close>

definition projectId_rule_cli :: "jsval \<Rightarrow> state \<Rightarrow> unit res" where
  "projectId_rule_cli expo st =
     (let projectId = get_opt (get_opt (get_opt expo ''extra'') ''eas'') ''projectId'' in
      if \<not> truthy projectId then Next () (logStatus FAIL ''Missing expo.extra.eas.projectId.'' st)
      else case interp projectId of
        Inl m \<Rightarrow> Throw m st
      | Inr text \<Rightarrow> Next () (logStatus PASS (''Project linked to EAS (ID: '' @ text @ '').'') st))"

definition lockfile_rule_cli :: "env \<Rightarrow> state \<Rightarrow> state" where
  "lockfile_rule_cli e st =
     (if \<not> list_ex (\<lambda>f. existsSync e (join_cwd e f)) lockfiles
        then logStatus FAIL ''No lockfile found.'' st
      else logStatus PASS ''Lockfile detected.'' st)"

definition checkLevelZeroBasics_cli :: "env \<Rightarrow> json \<Rightarrow> state \<Rightarrow> unit res" where
  "checkLevelZeroBasics_cli e appJson st0 =
     (let st = console_log (CHR 0x0A # ''--- Level 0: Foundation Checks ---'') st0 in
      if \<not> existsSync e (easJsonPath e)
        then Exit 1 (logStatus FAIL ''eas.json not found!'' st)
      else
        (let st1 = logStatus PASS ''eas.json exists.'' st in
         case get_prop (Some appJson) ''expo'' of
           Inl m \<Rightarrow> Throw m st1
         | Inr expo \<Rightarrow>
             bind (projectId_rule_cli expo st1)
               (\<lambda>_ st2. Next () (lockfile_rule_cli e st2))))"

definition read_eas_cli :: "env \<Rightarrow> state \<Rightarrow> state" where
  "read_eas_cli e st =
     (case readJson e (easJsonPath e) of
        Inl m \<Rightarrow> logStatus FAIL (''Error reading eas.json: '' @ m) st
      | Inr easJson \<Rightarrow> validateEasJson_cli easJson st)"

definition summary_cli :: "state \<Rightarrow> unit res" where
  "summary_cli st0 =
     (let st = console_log (CHR 0x0A # ''----------------------------------------'') st0 in
      if hasFails st
        then Exit 1 (console_error
               (red ''[!] Preflight failed. Fix errors above.'' @ [CHR 0x0A]) st)
      else Exit 0 (console_log
             (green (''['' @ check_mark_garbled @ ''] Preflight successful.'') @ [CHR 0x0A]) st))"

definition checks_cli :: "env \<Rightarrow> unit res" where
  "checks_cli e =
     bind (checkLevelZeroPointFive_cli e (console_log (''Starting Expo Build Preflight...'' @ [CHR 0x0A]) init))
       (\<lambda>_ st1. bind (getResolvedExpoConfig e st1)
         (\<lambda>appJson st2. bind (checkLevelZeroBasics_cli e appJson st2)
           (\<lambda>_ st3. bind (validateAppJson_cli (str_lt e) appJson st3)
             (\<lambda>_ st4. Next () (read_eas_cli e st4)))))"

definition run_cli :: "env \<Rightarrow> unit res" where
  "run_cli e = bind (checks_cli e) (\<lambda>_ st. summary_cli st)"

definition fatal_cli :: "env \<Rightarrow> bool" where
  "fatal_cli e = (\<not> returns (checks_cli e))"

section \<open>The asset script\<close>

text \<open>
  \<open>check_assets.js\<close> has its own \<open>logStatus\<close> and \<open>hasFails\<close>, written as in the other
  scripts. Loading the module tries to load \<open>image-size\<close>, and logs one WARN when that
  fails.
\<close>

definition image_size_missing :: string where
  "image_size_missing =
     ''The '' @ [CHR 0x27] @ ''image-size'' @ [CHR 0x27]
     @ '' package is not installed. File dimensions will not be checked. Run ''
     @ [CHR 0x27] @ ''npm install --save-dev image-size'' @ [CHR 0x27] @ '' for full validation.''"

definition load_image_size :: "env \<Rightarrow> state \<Rightarrow> state" where
  "load_image_size e st =
     (case sizeOf e of None \<Rightarrow> logStatus WARN image_size_missing st | Some probe \<Rightarrow> st)"

text \<open>
  \<open>checkFileExistence\<close> returns the full path, or \<open>null\<close> (\<open>None\<close>) when the file is
  missing. \<open>path.join\<close> raises a TypeError when the configured value is not a string.
\<close>

definition checkFileExistence :: "env \<Rightarrow> jsval \<Rightarrow> string \<Rightarrow> state \<Rightarrow> string option res" where
  \<open>checkFileExistence e filePath name st =
     (case filePath of
        Some (JStr p) \<Rightarrow>
          (let fullPath = join_cwd e p in
           if \<not> existsSync e fullPath
             then Next None (logStatus FAIL (''['' @ name @ ''] File not found at path: '' @ p) st)
           else Next (Some fullPath) (logStatus PASS (''['' @ name @ ''] File exists: '' @ p) st))
      | _ \<Rightarrow> Throw ''The "path" argument must be of type string.'' st)\<close>

definition checkDimensions :: "env \<Rightarrow> string option \<Rightarrow> string \<Rightarrow> int \<Rightarrow> int \<Rightarrow> state \<Rightarrow> state" where
  "checkDimensions e filePath name requiredWidth requiredHeight st =
     (case sizeOf e of
        None \<Rightarrow> st
      | Some probe \<Rightarrow>
          (case filePath of
             None \<Rightarrow> st
           | Some fp \<Rightarrow>
               if fp = [] then st
               else (case probe fp of
                  Inl m \<Rightarrow>
                    logStatus FAIL
                      (''['' @ name @ ''] Could not parse image dimensions. Ensure it is a valid image file. Error: '' @ m) st
                | Inr (width, height) \<Rightarrow>
                    if width \<noteq> requiredWidth \<or> height \<noteq> requiredHeight
                      then logStatus FAIL
                             (''['' @ name @ ''] Invalid dimensions. Expected ''
                              @ show_int requiredWidth @ ''x'' @ show_int requiredHeight
                              @ '', got '' @ show_int width @ ''x'' @ show_int height @ ''.'') st
                    else logStatus PASS
                           (''['' @ name @ ''] Dimensions are correct (''
                            @ show_int requiredWidth @ ''x'' @ show_int requiredHeight @ '').'') st)))"

text \<open>An asset checked for existence and then for its dimensions.\<close>

definition check_sized :: "env \<Rightarrow> jsval \<Rightarrow> string \<Rightarrow> state \<Rightarrow> unit res" where
  "check_sized e filePath name st =
     bind (checkFileExistence e filePath name st)
       (\<lambda>fullPath st1. Next () (checkDimensions e fullPath name 1024 1024 st1))"

definition icon_check :: "env \<Rightarrow> jsval \<Rightarrow> state \<Rightarrow> unit res" where
  \<open>icon_check e expo st =
     (if truthy (get_opt expo ''icon'')
        then check_sized e (get_opt expo ''icon'') ''Global Icon'' st
      else Next () (logStatus FAIL ''Missing global "icon" in app.json.'' st))\<close>

definition splash_check :: "env \<Rightarrow> jsval \<Rightarrow> state \<Rightarrow> unit res" where
  "splash_check e expo st =
     (if truthy (get_opt expo ''splash'') \<and> truthy (get_opt (get_opt expo ''splash'') ''image'')
        then bind (checkFileExistence e (get_opt (get_opt expo ''splash'') ''image'') ''Splash Screen'' st)
               (\<lambda>fullPath st1. Next () st1)
      else Next () (logStatus WARN ''No custom splash screen image configured.'' st))"

definition foreground_check :: "env \<Rightarrow> jsval \<Rightarrow> state \<Rightarrow> unit res" where
  "foreground_check e androidIcon st =
     (if truthy (get_opt androidIcon ''foregroundImage'')
        then check_sized e (get_opt androidIcon ''foregroundImage'') ''Android Foreground Image'' st
      else Next () (logStatus WARN ''Missing foregroundImage for Android adaptive icon.'' st))"

definition background_check :: "env \<Rightarrow> jsval \<Rightarrow> state \<Rightarrow> unit res" where
  "background_check e androidIcon st =
     (if truthy (get_opt androidIcon ''backgroundColor'')
        then (case interp (get_opt androidIcon ''backgroundColor'') of
                Inl m \<Rightarrow> Throw m st
              | Inr text \<Rightarrow>
                  Next () (logStatus PASS
                    (''Android Adaptive Icon background color is set: '' @ text) st))
      else if truthy (get_opt androidIcon ''backgroundImage'')
        then check_sized e (get_opt androidIcon ''backgroundImage'') ''Android Background Image'' st
      else Next () (logStatus FAIL
             ''Android Adaptive Icon requires either a backgroundColor or a backgroundImage to prevent transparency issues (black backgrounds).'' st))"

definition adaptiveIcon_check :: "env \<Rightarrow> jsval \<Rightarrow> state \<Rightarrow> unit res" where
  "adaptiveIcon_check e expo st =
     (let androidIcon = get_opt (get_opt expo ''android'') ''adaptiveIcon'' in
      if truthy androidIcon
        then bind (foreground_check e androidIcon st) (\<lambda>_ st1. background_check e androidIcon st1)
      else Next () (logStatus WARN
             ''No Android adaptiveIcon configured. The app will use the default square/circle crop.'' st))"

definition iosIcon_check :: "env \<Rightarrow> jsval \<Rightarrow> state \<Rightarrow> unit res" where
  "iosIcon_check e expo st =
     (if truthy (get_opt (get_opt expo ''ios'') ''icon'')
        then check_sized e (get_opt (get_opt expo ''ios'') ''icon'') ''iOS Specific Icon'' st
      else Next () st)"

definition load_config :: "env \<Rightarrow> state \<Rightarrow> jsval res" where
  \<open>load_config e st0 =
     (let st = console_log (''--- Validating Expo Assets ---'' @ [CHR 0x0A]) st0 in
      if \<not> existsSync e (appJsonPath e)
        then Exit 1 (logStatus FAIL (''app.json not found at '' @ appJsonPath e) st)
      else case readFileSync e (appJsonPath e) of
        Inl m \<Rightarrow> Throw m st
      | Inr appJsonRaw \<Rightarrow>
          (case JSON_parse e appJsonRaw of
             None \<Rightarrow> Exit 1 (logStatus FAIL ''Invalid app.json format.'' st)
           | Some appJson \<Rightarrow>
               (case get_prop (Some appJson) ''expo'' of
                  Inl m \<Rightarrow> Throw m st
                | Inr expo \<Rightarrow>
                    if \<not> truthy expo
                      then Exit 1 (logStatus FAIL ''Missing "expo" object in app.json.'' st)
                    else Next expo st)))\<close>

definition asset_checks :: "env \<Rightarrow> jsval \<Rightarrow> state \<Rightarrow> unit res" where
  "asset_checks e expo st =
     bind (icon_check e expo st)
       (\<lambda>_ st1. bind (splash_check e expo st1)
         (\<lambda>_ st2. bind (adaptiveIcon_check e expo st2)
           (\<lambda>_ st3. iosIcon_check e expo st3)))"

definition summary_assets :: "state \<Rightarrow> unit res" where
  "summary_assets st0 =
     (let st = console_log (CHR 0x0A # ''----------------------------------------'') st0 in
      if hasFails st
        then Exit 1 (console_error
               (red ''[!] Asset validation failed. Please fix the [FAIL] issues above.'' @ [CHR 0x0A]) st)
      else Exit 0 (console_log
             (green (''['' @ check_mark_garbled @ ''] Asset preflight completed successfully.'')
              @ [CHR 0x0A]) st))"

definition run_assets :: "env \<Rightarrow> state \<Rightarrow> unit res" where
  "run_assets e st =
     bind (load_config e st)
       (\<lambda>expo st1. bind (asset_checks e expo st1) (\<lambda>_ st2. summary_assets st2))"

text \<open>The whole script: the module is loaded, then \<open>run()\<close> is called.\<close>

definition check_assets :: "env \<Rightarrow> unit res" where
  "check_assets e = run_assets e (load_image_size e init)"

text \<open>
  A finding of \<open>checkDimensions\<close> is recognised by its text: the name of one of the four
  sized assets in brackets, then one of the three openings that function writes.
\<close>

definition sized_names :: "string list" where
  "sized_names = [''Global Icon'', ''Android Foreground Image'', ''Android Background Image'',
                  ''iOS Specific Icon'']"

definition dimension_openings :: "string list" where
  "dimension_openings = [''Invalid dimensions.'', ''Dimensions are correct'',
                         ''Could not parse image dimensions.'']"

definition is_dimension_finding :: "severity \<times> string \<Rightarrow> bool" where
  "is_dimension_finding f =
     list_ex (\<lambda>name. list_ex (\<lambda>opening. startsWith (''['' @ name @ ''] '' @ opening) (snd f))
                        dimension_openings) sized_names"

text \<open>A finding about the background image of the adaptive icon, recognised by its name.\<close>

definition about_background :: "severity \<times> string \<Rightarrow> bool" where
  "about_background f = startsWith ''[Android Background Image]'' (snd f)"

section \<open>Soundness of a step\<close>

text \<open>
  A step is sound when it keeps the agreement and, if it ends the process, does so with
  status 1.
\<close>

fun sound :: "'a res \<Rightarrow> bool" where
  "sound (Next x st) = consistent st"
| "sound (Exit c st) = (consistent st \<and> c = 1)"
| "sound (Throw m st) = consistent st"

text \<open>
  Two steps take the same course when they end the same way and, where they return, in
  states with the same flag.
\<close>

fun same_course :: "'a res \<Rightarrow> 'a res \<Rightarrow> bool" where
  "same_course (Next x st) (Next y st') = (x = y \<and> hasFails st = hasFails st')"
| "same_course (Exit c st) (Exit c' st') = (c = c')"
| "same_course (Throw m st) (Throw m' st') = True"
| "same_course _ _ = False"

text \<open>
  The shape of a rule: it logs one finding whatever the state, or, for a rule that can
  raise, raises whatever the state.
\<close>

definition one_finding :: "(state \<Rightarrow> state) \<Rightarrow> bool" where
  "one_finding f = (\<exists>s m. \<forall>st. f st = logStatus s m st)"

definition one_step :: "(state \<Rightarrow> unit res) \<Rightarrow> bool" where
  "one_step f = ((\<exists>s m. \<forall>st. f st = Next () (logStatus s m st)) \<or> (\<exists>m. \<forall>st. f st = Throw m st))"

section \<open>Sample inputs\<close>

text \<open>
  Concrete documents and environments, used where a property is evaluated at an explicit
  input. In all of them the compared values are numbers, so the string conversion is never
  consulted; \<open>nan_lt\<close> answers as if every string converted to NaN.
\<close>

definition nan_lt :: "string \<Rightarrow> int \<Rightarrow> bool" where
  "nan_lt s n = False"

definition expo_with_sdk :: "jsval \<Rightarrow> json" where
  "expo_with_sdk sdk =
     JObj ([(''slug'', JStr ''acme''),
            (''scheme'', JStr ''myapp''),
            (''runtimeVersion'', JObj [(''policy'', JStr ''fingerprint'')]),
            (''android'', JObj ((''package'', JStr ''com.acme.app'')
               # (case sdk of None \<Rightarrow> [] | Some v \<Rightarrow> [(''targetSdkVersion'', v)]))),
            (''ios'', JObj [(''bundleIdentifier'', JStr ''com.acme.app'')]),
            (''extra'', JObj [(''eas'', JObj [(''projectId'', JStr ''p-1'')])])])"

definition app_with_sdk :: "jsval \<Rightarrow> json" where
  "app_with_sdk sdk = JObj [(''expo'', expo_with_sdk sdk)]"

definition pkg_json :: json where
  "pkg_json = JObj [(''name'', JStr ''acme''), (''dependencies'', JObj [(''expo'', JStr ''~54.0.0'')])]"

definition eas_production :: "bool \<Rightarrow> json" where
  "eas_production autoIncrement =
     JObj [(''build'', JObj [(''production'',
       JObj [(''autoIncrement'', JBool autoIncrement),
             (''env'', JObj [(''API_URL'', JStr ''https://x'')])])])]"

definition eas_preview_only :: json where
  "eas_preview_only = JObj [(''build'', JObj [(''preview'', JObj [(''autoIncrement'', JBool True)])])]"

text \<open>
  A project directory \<open>/proj\<close> with \<open>package.json\<close>, \<open>node_modules\<close>, \<open>yarn.lock\<close> and
  \<open>eas.json\<close>, a clean working tree unless \<open>git\<close> says otherwise, no command-line
  arguments; \<open>app\<close> and \<open>eas\<close> are what reading and parsing the two documents gives.
\<close>

definition sample_env :: "string + json \<Rightarrow> string + json \<Rightarrow> string option \<Rightarrow> env" where
  "sample_env app eas git =
     \<lparr>argv2 = None, argv3 = None,
      join_cwd = (\<lambda>p. ''/proj/'' @ p),
      existsSync = (\<lambda>p. p \<in> set [''package.json'', ''node_modules'', ''/proj/eas.json'', ''/proj/yarn.lock'']),
      readJson = (\<lambda>p. if p = ''package.json'' then Inr pkg_json
                        else if p = ''/proj/app.json'' then app
                        else if p = ''/proj/eas.json'' then eas
                        else Inl ''ENOENT: no such file or directory''),
      git_status = git,
      expo_config = (case app of Inl m \<Rightarrow> None | Inr a \<Rightarrow> own_prop a ''expo''),
      str_lt = nan_lt,
      readFileSync = (\<lambda>p. Inl ''ENOENT: no such file or directory''),
      JSON_parse = (\<lambda>text. None),
      sizeOf = None\<rparr>"

definition sample_env_without_eas :: env where
  "sample_env_without_eas =
     (sample_env (Inr (app_with_sdk (Some (JNum 35)))) (Inl ''ENOENT: no such file or directory'') (Some []))
       \<lparr>existsSync := (\<lambda>p. p \<in> set [''package.json'', ''node_modules'', ''/proj/yarn.lock''])\<rparr>"

text \<open>
  For the asset script: \<open>app.json\<close> holds the text \<open>{...}\<close>, which parses to \<open>app\<close>; the
  files under \<open>/proj\<close> are those of the list \<open>files\<close>; every image is 1024 by 1024 except
  \<open>/proj/assets/small.png\<close>, which is 512 by 512.
\<close>

definition sample_probe :: "string \<Rightarrow> string + int \<times> int" where
  "sample_probe p = (if p = ''/proj/assets/small.png'' then Inr (512, 512) else Inr (1024, 1024))"

definition assets_env :: "json \<Rightarrow> string list \<Rightarrow> bool \<Rightarrow> env" where
  "assets_env app files probe =
     (sample_env (Inr app) (Inr (eas_production True)) (Some []))
       \<lparr>existsSync := (\<lambda>p. p \<in> set (''/proj/app.json'' # map (\<lambda>f. ''/proj/'' @ f) files)),
        readFileSync := (\<lambda>p. if p = ''/proj/app.json'' then Inr ''{...}''
                             else Inl ''ENOENT: no such file or directory''),
        JSON_parse := (\<lambda>text. if text = ''{...}'' then Some app else None),
        sizeOf := (if probe then Some sample_probe else None)\<rparr>"

definition expo_with_icons :: "(string \<times> json) list \<Rightarrow> json" where
  "expo_with_icons adaptiveIcon =
     JObj [(''icon'', JStr ''assets/icon.png''),
           (''splash'', JObj [(''image'', JStr ''assets/splash.png'')]),
           (''android'', JObj [(''adaptiveIcon'', JObj adaptiveIcon)])]"

definition app_with_icons :: "(string \<times> json) list \<Rightarrow> json" where
  "app_with_icons adaptiveIcon = JObj [(''expo'', expo_with_icons adaptiveIcon)]"

definition icon_with_both :: "(string \<times> json) list" where
  "icon_with_both = [(''foregroundImage'', JStr ''assets/fg.png''),
                     (''backgroundColor'', JStr ''#ffffff''),
                     (''backgroundImage'', JStr ''assets/bg.png'')]"


definition icon_with_image :: "(string \<times> json) list" where
  "icon_with_image = [(''foregroundImage'', JStr ''assets/small.png''),
                      (''backgroundImage'', JStr ''assets/bg.png'')]"

text \<open>The image files of the sample project; \<open>assets/bg.png\<close> is not among them.\<close>

definition sample_files :: "string list" where
  "sample_files = [''assets/icon.png'', ''assets/splash.png'', ''assets/fg.png'', ''assets/small.png'']"

definition expo_example_package :: json where
  "expo_example_package =
     JObj [(''android'', JObj [(''package'', JStr ''com.example.app''),
                               (''targetSdkVersion'', JNum 35)])]"

section \<open>Basic facts about the output\<close>

lemma out_logStatus [simp]: "out (logStatus s m st) = out st @ [Status s m]"
  by (simp add: logStatus_def)

lemma hasFails_logStatus [simp]: "hasFails (logStatus s m st) = (s = FAIL \<or> hasFails st)"
  by (simp add: logStatus_def)

lemma out_console_log [simp]: "out (console_log s st) = out st @ [Log s]"
  by (simp add: console_log_def)

lemma hasFails_console_log [simp]: "hasFails (console_log s st) = hasFails st"
  by (simp add: console_log_def)

lemma out_console_error [simp]: "out (console_error s st) = out st @ [Err s]"
  by (simp add: console_error_def)

lemma hasFails_console_error [simp]: "hasFails (console_error s st) = hasFails st"
  by (simp add: console_error_def)

lemma findings_logStatus [simp]: "findings (logStatus s m st) = findings st @ [(s, m)]"
  by (simp add: findings_def)

lemma findings_console_log [simp]: "findings (console_log s st) = findings st"
  by (simp add: findings_def)

lemma findings_console_error [simp]: "findings (console_error s st) = findings st"
  by (simp add: findings_def)

lemma out_init [simp]: "out init = []"
  by (simp add: init_def)

lemma hasFails_init [simp]: "\<not> hasFails init"
  by (simp add: init_def)

lemma findings_init [simp]: "findings init = []"
  by (simp add: findings_def)

lemma startsWith_iff: "startsWith p s \<longleftrightarrow> (\<exists>r. s = p @ r)"
  by (induction p s rule: startsWith.induct) auto

text \<open>The reserved pattern is one of six prefixes, matched on the lower-cased text.\<close>

lemma invalidDomainRegex_test_iff:
  "invalidDomainRegex_test s \<longleftrightarrow>
     (\<exists>r. map to_lower s = ''com.example.'' @ r \<or> map to_lower s = ''com.test.'' @ r
        \<or> map to_lower s = ''com.demo.'' @ r \<or> map to_lower s = ''br.example.'' @ r
        \<or> map to_lower s = ''br.test.'' @ r \<or> map to_lower s = ''br.demo.'' @ r)"
  by (simp add: invalidDomainRegex_test_def startsWith_iff ex_disj_distrib del: startsWith.simps)

section \<open>The flag agrees with the findings\<close>

lemma has_FAIL_logStatus [simp]: "has_FAIL (logStatus s m st) = (s = FAIL \<or> has_FAIL st)"
  by (auto simp: has_FAIL_def)

lemma has_FAIL_console_log [simp]: "has_FAIL (console_log s st) = has_FAIL st"
  by (simp add: has_FAIL_def)

lemma has_FAIL_console_error [simp]: "has_FAIL (console_error s st) = has_FAIL st"
  by (simp add: has_FAIL_def)

lemma has_FAIL_init [simp]: "\<not> has_FAIL init"
  by (simp add: has_FAIL_def)

lemma consistent_init [simp]: "consistent init"
  by (simp add: consistent_def)

lemma consistent_logStatus [simp]: "consistent st \<Longrightarrow> consistent (logStatus s m st)"
  by (simp add: consistent_def)

lemma consistent_console_log [simp]: "consistent (console_log s st) = consistent st"
  by (simp add: consistent_def)

lemma consistent_console_error [simp]: "consistent (console_error s st) = consistent st"
  by (simp add: consistent_def)


section \<open>The shape of the rules\<close>

lemma one_findingI: "(\<And>st. f st = logStatus s m st) \<Longrightarrow> one_finding f"
  unfolding one_finding_def by blast

lemma one_step_Next: "(\<And>st. f st = Next () (logStatus s m st)) \<Longrightarrow> one_step f"
  unfolding one_step_def by blast

lemma one_step_Throw: "(\<And>st. f st = Throw m st) \<Longrightarrow> one_step f"
  unfolding one_step_def by blast

lemma one_step_text:
  assumes "\<And>text. one_step (g text)"
  shows "one_step (\<lambda>st. case r of Inl m \<Rightarrow> Throw m st | Inr text \<Rightarrow> g text st)"
  using assms by (cases r) (auto intro: one_step_Throw)

lemma one_step_if:
  assumes "one_step f" and "one_step g"
  shows "one_step (\<lambda>st. if c then f st else g st)"
  using assms by (cases c) simp_all

lemma one_finding_if:
  assumes "one_finding f" and "one_finding g"
  shows "one_finding (\<lambda>st. if c then f st else g st)"
  using assms by (cases c) simp_all

lemma one_finding_option:
  assumes "one_finding f" and "\<And>x. one_finding (g x)"
  shows "one_finding (\<lambda>st. case v of None \<Rightarrow> f st | Some x \<Rightarrow> g x st)"
  using assms by (cases v) simp_all

lemmas shape_intros =
  one_step_if one_step_text one_step_Next one_step_Throw
  one_finding_if one_finding_option one_findingI

lemma rules_shape:
  "one_step (androidPackage_rule expo)"
  "one_step (iosBundle_rule expo)"
  "one_step (scheme_rule expo)"
  "one_step (targetSdk_rule lt expo)"
  "one_step (projectId_rule expo)"
  "one_finding (runtimeVersion_rule expo)"
  "one_finding (newArch_rule expo)"
  "one_finding (lockfile_rule e)"
  "one_finding (git_rule e)"
  "one_finding (autoIncrement_rule p)"
  "one_finding (envVars_rule p)"
  unfolding androidPackage_rule_def [abs_def] iosBundle_rule_def [abs_def] scheme_rule_def [abs_def]
    targetSdk_rule_def [abs_def] projectId_rule_def [abs_def] runtimeVersion_rule_def [abs_def]
    newArch_rule_def [abs_def] lockfile_rule_def [abs_def] git_rule_def [abs_def]
    autoIncrement_rule_def [abs_def] envVars_rule_def [abs_def] Let_def
  by ((intro shape_intros | rule refl)+)

lemma rules_shape_cli:
  "one_step (androidPackage_rule_cli expo)"
  "one_step (iosBundle_rule_cli expo)"
  "one_step (scheme_rule_cli expo)"
  "one_step (targetSdk_rule_cli lt expo)"
  "one_step (projectId_rule_cli expo)"
  "one_finding (runtimeVersion_rule_cli expo)"
  "one_finding (newArch_rule_cli expo)"
  "one_finding (lockfile_rule_cli e)"
  "one_finding (autoIncrement_rule_cli p)"
  "one_finding (envVars_rule_cli p)"
  unfolding androidPackage_rule_cli_def [abs_def] iosBundle_rule_cli_def [abs_def]
    scheme_rule_cli_def [abs_def] targetSdk_rule_cli_def [abs_def] projectId_rule_cli_def [abs_def]
    runtimeVersion_rule_cli_def [abs_def] newArch_rule_cli_def [abs_def]
    lockfile_rule_cli_def [abs_def] autoIncrement_rule_cli_def [abs_def]
    envVars_rule_cli_def [abs_def] Let_def
  by ((intro shape_intros | rule refl)+)


section \<open>Every step keeps the agreement\<close>

lemma one_finding_consistent: "one_finding f \<Longrightarrow> consistent st \<Longrightarrow> consistent (f st)"
  by (auto simp: one_finding_def)

lemma one_step_sound: "one_step f \<Longrightarrow> consistent st \<Longrightarrow> sound (f st)"
  by (auto simp: one_step_def)

lemma one_finding_length: "one_finding f \<Longrightarrow> length (findings (f st)) = Suc (length (findings st))"
  by (auto simp: one_finding_def)

lemma one_step_length:
  "one_step f \<Longrightarrow> f st = Next x st' \<Longrightarrow> length (findings st') = Suc (length (findings st))"
  by (auto simp: one_step_def)

lemma one_finding_flag_cong:
  "one_finding f \<Longrightarrow> hasFails st = hasFails st' \<Longrightarrow> hasFails (f st) = hasFails (f st')"
  by (auto simp: one_finding_def)

lemma one_step_same_course:
  "one_step f \<Longrightarrow> hasFails st = hasFails st' \<Longrightarrow> same_course (f st) (f st')"
  by (auto simp: one_step_def)

lemmas rules_consistent [simp] =
  rules_shape(6-11) [THEN one_finding_consistent] rules_shape_cli(6-10) [THEN one_finding_consistent]

lemmas rules_sound [simp] =
  rules_shape(1-5) [THEN one_step_sound] rules_shape_cli(1-5) [THEN one_step_sound]

lemma consistent_validateEasJson [simp]:
  "consistent st \<Longrightarrow> consistent (validateEasJson easJson st)"
  "consistent st \<Longrightarrow> consistent (read_eas e st)"
  by (simp_all add: validateEasJson_def read_eas_def Let_def split: sum.split)

lemma sound_bind:
  assumes "sound r" and "\<And>x st. consistent st \<Longrightarrow> sound (f x st)"
  shows "sound (bind r f)"
  using assms by (cases r) auto

lemma sound_validateAppJson:
  "consistent st \<Longrightarrow> sound (validateAppJson lt appJson st)"
  unfolding validateAppJson_def Let_def
  by (auto split: sum.split intro!: sound_bind)

lemma sound_basics:
  "consistent st \<Longrightarrow> sound (checkLevelZeroBasics e appJson st)"
  unfolding checkLevelZeroBasics_def Let_def
  by (auto split: sum.split intro!: sound_bind)

lemma sound_steps:
  assumes "consistent st"
  shows "sound (checkLevelZeroPointFive e st)"
    and "sound (read_app e st)"
  using assms
  by (simp_all add: checkLevelZeroPointFive_def read_app_def Let_def split: sum.split)

lemma sound_checks: "sound (checks e)"
  unfolding checks_def
  by (intro sound_bind sound_steps sound_basics sound_validateAppJson) simp_all

lemma sound_final: "sound r \<Longrightarrow> consistent (final r)"
  by (cases r) auto

section \<open>The configuration rules\<close>

text \<open>
  The rules of \<open>validateAppJson\<close> run in the order of the catalogue whenever the document
  has an \<open>expo\<close> object.
\<close>

lemma validateAppJson_catalogue:
  assumes "get_prop (Some appJson) ''expo'' = Inr expo" and "truthy expo"
  shows "validateAppJson lt appJson st =
           bind (androidPackage_rule expo (console_log (CHR 0x0A # ''--- Validating app.json ---'') st))
             (\<lambda>_ st1. bind (iosBundle_rule expo st1)
               (\<lambda>_ st2. bind (scheme_rule expo st2)
                 (\<lambda>_ st3. bind (targetSdk_rule lt expo (runtimeVersion_rule expo st3))
                   (\<lambda>_ st4. Next () (newArch_rule expo st4)))))"
  using assms by (simp add: validateAppJson_def Let_def)

lemma validateAppJson_cli_catalogue:
  assumes "get_prop (Some appJson) ''expo'' = Inr expo" and "truthy expo"
  shows "validateAppJson_cli lt appJson st =
           bind (androidPackage_rule_cli expo (console_log (CHR 0x0A # ''--- Validating Config Rules ---'') st))
             (\<lambda>_ st1. bind (iosBundle_rule_cli expo st1)
               (\<lambda>_ st2. bind (scheme_rule_cli expo st2)
                 (\<lambda>_ st3. bind (targetSdk_rule_cli lt expo (runtimeVersion_rule_cli expo st3))
                   (\<lambda>_ st4. Next () (newArch_rule_cli expo st4)))))"
proof -
  obtain v where "expo = Some v" and "v \<noteq> JNull"
    using assms(2) by (cases expo rule: truthy.cases) auto
  then have "get_prop expo ''android'' = Inr (own_prop v ''android'')"
    by (cases v) auto
  then show ?thesis
    using assms by (simp add: validateAppJson_cli_def Let_def)
qed

text \<open>Lower-casing touches the 26 capital letters only, and moves each by 32.\<close>

lemma to_lower_eq:
  "to_lower c = (if c \<in> set ''ABCDEFGHIJKLMNOPQRSTUVWXYZ'' then char_of (of_char c + (32::nat)) else c)"
  by (auto simp: to_lower_def char_of_def bit_Suc_0_iff)

lemma sample_matches:
  "invalidDomainRegex_test ''com.example.app''"
  "invalidDomainRegex_test ''COM.Example.app''"
  "invalidDomainRegex_test ''br.demo.shop''"
  "\<not> invalidDomainRegex_test ''com.acme.app''"
  "\<not> invalidDomainRegex_test ''org.example.app''"
  "\<not> invalidDomainRegex_test ''com.example''"
  "\<not> invalidDomainRegex_test ''xcom.example.app''"
  by (simp_all add: invalidDomainRegex_test_def to_lower_def)


text \<open>
  C7. The Android identity rule emits FAIL \<open>Missing android.package.\<close> when the package is
  absent (or otherwise falsy), FAIL with a message that ends in the offending value when
  the value matches the reserved pattern, and PASS otherwise. The pattern is matched
  exactly by the texts that begin, in any letter case, with one of \<open>com.example.\<close>,
  \<open>com.test.\<close>, \<open>com.demo.\<close>, \<open>br.example.\<close>, \<open>br.test.\<close> and \<open>br.demo.\<close>. A string prints as
  itself, so \<open>com.example.app\<close> yields the FAIL \<open>Invalid/test android.package:
  com.example.app\<close>. A value that is not a string is tested and printed through its string
  form; when it has none (an object with an own \<open>toString\<close> property) the rule raises and
  logs nothing.
\<close>

theorem android_identity_rule:
  assumes "pkg = get_opt (get_opt expo ''android'') ''package''"
  shows "(\<not> truthy pkg \<longrightarrow>
            androidPackage_rule expo st = Next () (logStatus FAIL ''Missing android.package.'' st))
       \<and> (truthy pkg \<and> interp pkg = Inr t \<and> invalidDomainRegex_test t \<longrightarrow>
            androidPackage_rule expo st
              = Next () (logStatus FAIL (''Invalid/test android.package: '' @ t) st))
       \<and> (truthy pkg \<and> interp pkg = Inr t \<and> \<not> invalidDomainRegex_test t \<longrightarrow>
            androidPackage_rule expo st
              = Next () (logStatus PASS (''Valid android.package: '' @ t) st))
       \<and> (truthy pkg \<and> interp pkg = Inl m \<longrightarrow> androidPackage_rule expo st = Throw m st)
       \<and> (pkg = Some (JStr s) \<longrightarrow> truthy pkg = (s \<noteq> []) \<and> interp pkg = Inr s)
       \<and> (pkg = Some (JStr ''com.example.app'') \<longrightarrow>
            androidPackage_rule expo st
              = Next () (logStatus FAIL ''Invalid/test android.package: com.example.app'' st))
       \<and> (invalidDomainRegex_test u \<longleftrightarrow>
            (\<exists>r. map to_lower u = ''com.example.'' @ r \<or> map to_lower u = ''com.test.'' @ r
               \<or> map to_lower u = ''com.demo.'' @ r \<or> map to_lower u = ''br.example.'' @ r
               \<or> map to_lower u = ''br.test.'' @ r \<or> map to_lower u = ''br.demo.'' @ r))
       \<and> to_lower c = (if c \<in> set ''ABCDEFGHIJKLMNOPQRSTUVWXYZ''
                        then char_of (of_char c + (32::nat)) else c)"
    (is "?A \<and> ?B \<and> ?C \<and> ?D \<and> ?E \<and> ?F \<and> ?G \<and> ?H")
proof -
  have a: ?A and b: ?B and c: ?C and d: ?D
    using assms by (simp_all add: androidPackage_rule_def Let_def)
  have e: ?E
    by (simp add: interp_def)
  have f: ?F
    using assms by (simp add: androidPackage_rule_def Let_def interp_def sample_matches)
  have g: ?G
    by (rule invalidDomainRegex_test_iff)
  have h: ?H
    by (rule to_lower_eq)
  show ?thesis
    by (rule conjI [OF a conjI [OF b conjI [OF c conjI [OF d conjI [OF e conjI [OF f conjI [OF g h]]]]]]])
qed

theorem android_identity_rule_witness:
  "androidPackage_rule (Some expo_example_package) init
     = Next () (logStatus FAIL ''Invalid/test android.package: com.example.app'' init)
   \<and> androidPackage_rule (Some (expo_with_sdk None)) init
     = Next () (logStatus PASS ''Valid android.package: com.acme.app'' init)
   \<and> androidPackage_rule (Some (JObj [(''android'', JObj [(''package'', JStr ''COM.Example.app'')])])) init
     = Next () (logStatus FAIL ''Invalid/test android.package: COM.Example.app'' init)
   \<and> androidPackage_rule (Some (JObj [(''android'', JObj [(''targetSdkVersion'', JNum 35)])])) init
     = Next () (logStatus FAIL ''Missing android.package.'' init)
   \<and> androidPackage_rule
        (Some (JObj [(''android'', JObj [(''package'', JObj [(''toString'', JNull)])])])) init
     = Throw not_primitive init
   \<and> findings (final (validateAppJson nan_lt (JObj [(''expo'', expo_example_package)]) init)) ! 0
     = (FAIL, ''Invalid/test android.package: com.example.app'')"
proof -
  have 1: "androidPackage_rule (Some expo_example_package) init
     = Next () (logStatus FAIL ''Invalid/test android.package: com.example.app'' init)"
    using android_identity_rule [where pkg = "Some (JStr ''com.example.app'')"
            and expo = "Some expo_example_package" and st = init]
    by (simp add: expo_example_package_def)
  have 2: "androidPackage_rule (Some (expo_with_sdk None)) init
     = Next () (logStatus PASS ''Valid android.package: com.acme.app'' init)"
    using android_identity_rule [where pkg = "Some (JStr ''com.acme.app'')"
            and expo = "Some (expo_with_sdk None)" and st = init and t = "''com.acme.app''"]
    by (simp add: expo_with_sdk_def interp_def sample_matches)
  have 3: "androidPackage_rule (Some (JObj [(''android'', JObj [(''package'', JStr ''COM.Example.app'')])])) init
     = Next () (logStatus FAIL ''Invalid/test android.package: COM.Example.app'' init)"
    using android_identity_rule [where pkg = "Some (JStr ''COM.Example.app'')"
            and expo = "Some (JObj [(''android'', JObj [(''package'', JStr ''COM.Example.app'')])])"
            and st = init and t = "''COM.Example.app''"]
    by (simp add: interp_def sample_matches)
  have 4: "androidPackage_rule (Some (JObj [(''android'', JObj [(''targetSdkVersion'', JNum 35)])])) init
     = Next () (logStatus FAIL ''Missing android.package.'' init)"
    using android_identity_rule [where pkg = None
            and expo = "Some (JObj [(''android'', JObj [(''targetSdkVersion'', JNum 35)])])"
            and st = init]
    by simp
  have 5: "androidPackage_rule
        (Some (JObj [(''android'', JObj [(''package'', JObj [(''toString'', JNull)])])])) init
     = Throw not_primitive init"
    using android_identity_rule [where pkg = "Some (JObj [(''toString'', JNull)])"
            and expo = "Some (JObj [(''android'', JObj [(''package'', JObj [(''toString'', JNull)])])])"
            and st = init and m = not_primitive]
    by (simp add: interp_def)
  have 6: "findings (final (validateAppJson nan_lt (JObj [(''expo'', expo_example_package)]) init)) ! 0
     = (FAIL, ''Invalid/test android.package: com.example.app'')"
    by (simp add: validateAppJson_def Let_def expo_example_package_def androidPackage_rule_def
        iosBundle_rule_def scheme_rule_def runtimeVersion_rule_def targetSdk_rule_def
        newArch_rule_def interp_def show_int_def sample_matches)
  show ?thesis
    by (rule conjI [OF 1 conjI [OF 2 conjI [OF 3 conjI [OF 4 conjI [OF 5 6]]]]])
qed


text \<open>
  C2, as the code has it. In the script that resolves the configuration through the Expo
  CLI, the Target SDK rule emits FAIL when \<open>android.targetSdkVersion\<close> is absent, FAIL when
  it is a number below 35 and PASS when it is a number of at least 35. In the direct-parse
  script a number of at least 35 yields PASS and a non-zero number below 35 yields FAIL,
  but an absent value yields WARN.
\<close>

theorem target_sdk_rule_by_script:
  assumes "sdk = get_opt (get_opt expo ''android'') ''targetSdkVersion''"
  shows "(sdk = None \<longrightarrow>
            targetSdk_rule_cli lt expo st
              = Next () (logStatus FAIL ''targetSdkVersion is missing. API 35 is mandatory.'' st))
       \<and> (sdk = Some (JNum n) \<and> n < 35 \<longrightarrow>
            targetSdk_rule_cli lt expo st
              = Next () (logStatus FAIL
                  (if n = 0 then ''targetSdkVersion is missing. API 35 is mandatory.''
                   else ''targetSdkVersion is '' @ show_int n @ ''. API 35 is mandatory.'') st))
       \<and> (sdk = Some (JNum n) \<and> 35 \<le> n \<longrightarrow>
            targetSdk_rule_cli lt expo st
              = Next () (logStatus PASS (''Valid targetSdkVersion: '' @ show_int n) st))
       \<and> (sdk = None \<longrightarrow>
            targetSdk_rule lt expo st
              = Next () (logStatus WARN
                  ''targetSdkVersion not explicitly set. Expo will use the SDK default.'' st))
       \<and> (sdk = Some (JNum n) \<and> n < 35 \<and> n \<noteq> 0 \<longrightarrow>
            targetSdk_rule lt expo st
              = Next () (logStatus FAIL
                  (''targetSdkVersion is '' @ show_int n
                   @ ''. API 35+ is mandatory per recent Play Store rules.'') st))
       \<and> (sdk = Some (JNum n) \<and> 35 \<le> n \<longrightarrow>
            targetSdk_rule lt expo st
              = Next () (logStatus PASS (''Valid targetSdkVersion: '' @ show_int n) st))"
  using assms by (auto simp add: targetSdk_rule_cli_def targetSdk_rule_def Let_def interp_def)

theorem target_sdk_rule_by_script_witness:
  "findings (final (targetSdk_rule_cli nan_lt (Some (expo_with_sdk (Some (JNum 34)))) init))
     = [(FAIL, ''targetSdkVersion is 34. API 35 is mandatory.'')]
   \<and> findings (final (targetSdk_rule nan_lt (Some (expo_with_sdk (Some (JNum 34)))) init))
     = [(FAIL, ''targetSdkVersion is 34. API 35+ is mandatory per recent Play Store rules.'')]
   \<and> findings (final (targetSdk_rule_cli nan_lt (Some (expo_with_sdk (Some (JNum 35)))) init))
     = [(PASS, ''Valid targetSdkVersion: 35'')]
   \<and> findings (final (targetSdk_rule nan_lt (Some (expo_with_sdk (Some (JNum 35)))) init))
     = [(PASS, ''Valid targetSdkVersion: 35'')]
   \<and> findings (final (targetSdk_rule_cli nan_lt (Some (expo_with_sdk None)) init))
     = [(FAIL, ''targetSdkVersion is missing. API 35 is mandatory.'')]
   \<and> findings (final (targetSdk_rule nan_lt (Some (expo_with_sdk None)) init))
     = [(WARN, ''targetSdkVersion not explicitly set. Expo will use the SDK default.'')]"
  using target_sdk_rule_by_script
          [where sdk = "Some (JNum 34)" and expo = "Some (expo_with_sdk (Some (JNum 34)))"
             and n = 34 and lt = nan_lt and st = init]
        target_sdk_rule_by_script
          [where sdk = "Some (JNum 35)" and expo = "Some (expo_with_sdk (Some (JNum 35)))"
             and n = 35 and lt = nan_lt and st = init]
        target_sdk_rule_by_script
          [where sdk = None and expo = "Some (expo_with_sdk None)"
             and n = 0 and lt = nan_lt and st = init]
  by (simp add: expo_with_sdk_def show_int_def)

text \<open>
  The direct-parse script on a document that passes every other rule and has no
  \<open>android.targetSdkVersion\<close>: the Target SDK rule, fifth in the catalogue, emits WARN, and
  no finding of the function is a FAIL.
\<close>

theorem target_sdk_absent_counterexample:
  "map fst (findings (final (validateAppJson nan_lt (app_with_sdk None) init)))
     = [PASS, PASS, PASS, PASS, WARN, PASS]
   \<and> findings (final (validateAppJson nan_lt (app_with_sdk None) init)) ! 4
     = (WARN, ''targetSdkVersion not explicitly set. Expo will use the SDK default.'')"
  by (simp add: validateAppJson_def app_with_sdk_def expo_with_sdk_def Let_def
      androidPackage_rule_def iosBundle_rule_def scheme_rule_def runtimeVersion_rule_def
      is_fingerprint_def targetSdk_rule_def newArch_rule_def interp_def sample_matches)

text \<open>
  C10. When \<open>android.targetSdkVersion\<close> is 0, the Target SDK rule of either script takes
  the branch of an absent value: the finding is the one an absent value gives (WARN
  \<open>not explicitly set\<close> in the direct-parse script, FAIL \<open>is missing\<close> in the CLI
  script) and not the below-threshold FAIL that reports the number, although 0 compares
  below 35.
\<close>

theorem target_sdk_zero_is_absent:
  assumes "get_opt (get_opt expo ''android'') ''targetSdkVersion'' = Some (JNum 0)"
    and "get_opt (get_opt expo' ''android'') ''targetSdkVersion'' = None"
  shows "targetSdk_rule lt expo st = targetSdk_rule lt expo' st
       \<and> targetSdk_rule_cli lt expo st = targetSdk_rule_cli lt expo' st
       \<and> targetSdk_rule lt expo st
           = Next () (logStatus WARN
               ''targetSdkVersion not explicitly set. Expo will use the SDK default.'' st)
       \<and> targetSdk_rule_cli lt expo st
           = Next () (logStatus FAIL ''targetSdkVersion is missing. API 35 is mandatory.'' st)
       \<and> findings (final (targetSdk_rule lt expo st))
           = findings st @ [(WARN, ''targetSdkVersion not explicitly set. Expo will use the SDK default.'')]
       \<and> findings (final (targetSdk_rule_cli lt expo st))
           = findings st @ [(FAIL, ''targetSdkVersion is missing. API 35 is mandatory.'')]
       \<and> (FAIL, ''targetSdkVersion is 0. API 35+ is mandatory per recent Play Store rules.'')
           \<notin> set (findings (final (targetSdk_rule lt expo init)))
       \<and> (FAIL, ''targetSdkVersion is 0. API 35 is mandatory.'')
           \<notin> set (findings (final (targetSdk_rule_cli lt expo init)))
       \<and> js_lt lt (Some (JNum 0)) 35 = Inr True"
  using assms by (simp add: targetSdk_rule_cli_def targetSdk_rule_def Let_def)

theorem target_sdk_zero_is_absent_witness:
  "findings (final (targetSdk_rule nan_lt (Some (expo_with_sdk (Some (JNum 0)))) init))
     = [(WARN, ''targetSdkVersion not explicitly set. Expo will use the SDK default.'')]
   \<and> findings (final (targetSdk_rule_cli nan_lt (Some (expo_with_sdk (Some (JNum 0)))) init))
     = [(FAIL, ''targetSdkVersion is missing. API 35 is mandatory.'')]
   \<and> targetSdk_rule nan_lt (Some (expo_with_sdk (Some (JNum 0)))) init
     = targetSdk_rule nan_lt (Some (expo_with_sdk None)) init"
proof -
  have zero: "get_opt (get_opt (Some (expo_with_sdk (Some (JNum 0)))) ''android'') ''targetSdkVersion''
                = Some (JNum 0)"
    by (simp add: expo_with_sdk_def)
  have absent: "get_opt (get_opt (Some (expo_with_sdk None)) ''android'') ''targetSdkVersion'' = None"
    by (simp add: expo_with_sdk_def)
  show ?thesis
    using target_sdk_zero_is_absent [OF zero absent, where lt = nan_lt and st = init]
    by auto
qed

section \<open>Evaluating the sample inputs\<close>

lemma sample_env_sel [simp]:
  "argv2 (sample_env app eas git) = None"
  "argv3 (sample_env app eas git) = None"
  "join_cwd (sample_env app eas git) p = ''/proj/'' @ p"
  "existsSync (sample_env app eas git) p = (p \<in> set [''package.json'', ''node_modules'', ''/proj/eas.json'', ''/proj/yarn.lock''])"
  "readJson (sample_env app eas git) ''package.json'' = Inr pkg_json"
  "readJson (sample_env app eas git) ''/proj/app.json'' = app"
  "readJson (sample_env app eas git) ''/proj/eas.json'' = eas"
  "git_status (sample_env app eas git) = git"
  "str_lt (sample_env app eas git) = nan_lt"
  by (simp_all add: sample_env_def)

lemma sample_paths [simp]:
  "appJsonPath (sample_env app eas git) = ''/proj/app.json''"
  "easJsonPath (sample_env app eas git) = ''/proj/eas.json''"
  by (simp_all add: appJsonPath_def easJsonPath_def arg_or_default_def)

lemma sample_p05:
  \<open>checkLevelZeroPointFive (sample_env app eas git) st =
     Next () (logStatus PASS ''node_modules directory found.''
       (logStatus PASS ''Expo project detected (found "expo" in package.json dependencies).''
         (console_log (CHR 0x0A # ''--- Level 0.5: Environment Validation ---'') st)))\<close>
  by (simp add: checkLevelZeroPointFive_def pkg_json_def Let_def)

lemma sample_basics:
  "checkLevelZeroBasics (sample_env app eas git) (app_with_sdk sdk) st =
     Next () (git_rule (sample_env app eas git)
       (logStatus PASS ''Lockfile detected.''
         (logStatus PASS ''Project linked to EAS (ID: p-1).''
           (logStatus PASS ''eas.json exists.''
             (console_log (CHR 0x0A # ''--- Level 0: Foundation Checks ---'') st)))))"
  by (simp add: checkLevelZeroBasics_def app_with_sdk_def expo_with_sdk_def Let_def
      projectId_rule_def lockfile_rule_def lockfiles_def interp_def)

lemma sample_validate:
  "validateAppJson nan_lt (app_with_sdk (Some (JNum 35))) st =
     Next () (logStatus PASS ''New Architecture (newArchEnabled) is not disabled.''
       (logStatus PASS ''Valid targetSdkVersion: 35''
         (logStatus PASS ''runtimeVersion configured with fingerprint policy.''
           (logStatus PASS ''Scheme configured: myapp''
             (logStatus PASS ''Valid ios.bundleIdentifier: com.acme.app''
               (logStatus PASS ''Valid android.package: com.acme.app''
                 (console_log (CHR 0x0A # ''--- Validating app.json ---'') st)))))))"
  by (simp add: validateAppJson_def app_with_sdk_def expo_with_sdk_def Let_def
      androidPackage_rule_def iosBundle_rule_def scheme_rule_def runtimeVersion_rule_def
      is_fingerprint_def targetSdk_rule_def newArch_rule_def interp_def
      sample_matches show_int_def)

lemma sample_returns:
  "returns (checks (sample_env (Inr (app_with_sdk (Some (JNum 35)))) eas git))"
  by (simp add: checks_def sample_p05 read_app_def sample_basics sample_validate)

lemma final_summary [simp]:
  "findings (final (summary st)) = findings st"
  "has_FAIL (final (summary st)) = has_FAIL st"
  "hasFails (final (summary st)) = hasFails st"
  by (simp_all add: summary_def Let_def has_FAIL_def)

lemma sample_read_eas:
  "read_eas (sample_env app (Inr (eas_production b)) git) st =
     logStatus PASS ''Environment variables detected: API_URL''
       (logStatus (if b then PASS else FAIL)
          (if b then ''autoIncrement is active in the production profile.''
           else ''build.production.autoIncrement is not set to true. Builds might overwrite existing versions in the stores.'')
          (console_log (CHR 0x0A # ''--- Validating eas.json ---'') st))"
  apply (simp add: read_eas_def)
  apply (simp add: validateEasJson_def eas_production_def Let_def)
  apply (simp add: autoIncrement_rule_def envVars_rule_def)
  done

lemma sample_git_clean:
  "git_rule (sample_env app eas (Some [])) st = logStatus PASS ''Git working tree is clean.'' st"
  by (simp add: git_rule_def trim_def)


lemma sample_checks_returns:
  "checks (sample_env (Inr (app_with_sdk (Some (JNum 35)))) (Inr (eas_production b)) (Some [])) =
     Next () (final (checks (sample_env (Inr (app_with_sdk (Some (JNum 35)))) (Inr (eas_production b)) (Some []))))"
  by (simp add: checks_def sample_p05 read_app_def sample_basics sample_validate)

lemma sample_checks_has_FAIL:
  "has_FAIL (final (checks (sample_env (Inr (app_with_sdk (Some (JNum 35)))) (Inr (eas_production b)) (Some []))))
     = (\<not> b)"
  by (simp add: checks_def sample_p05 read_app_def sample_basics sample_validate
        sample_read_eas sample_git_clean)

lemma sample_read_eas_failed:
  "read_eas (sample_env app (Inl m) git) st = logStatus FAIL (''Error reading /proj/eas.json: '' @ m) st"
  by (simp add: read_eas_def)

lemma sample_p05_cli:
  \<open>checkLevelZeroPointFive_cli (sample_env app eas git) st =
     Next () (logStatus PASS ''node_modules directory found.''
       (logStatus PASS ''Expo project detected (found "expo" in dependencies).''
         (console_log (CHR 0x0A # ''--- Level 0.5: Environment Validation ---'') st)))\<close>
  by (simp add: checkLevelZeroPointFive_cli_def pkg_json_def Let_def)

lemma sample_without_eas_p05:
  \<open>checkLevelZeroPointFive sample_env_without_eas st =
     Next () (logStatus PASS ''node_modules directory found.''
       (logStatus PASS ''Expo project detected (found "expo" in package.json dependencies).''
         (console_log (CHR 0x0A # ''--- Level 0.5: Environment Validation ---'') st)))\<close>
  \<open>checkLevelZeroPointFive_cli sample_env_without_eas st =
     Next () (logStatus PASS ''node_modules directory found.''
       (logStatus PASS ''Expo project detected (found "expo" in dependencies).''
         (console_log (CHR 0x0A # ''--- Level 0.5: Environment Validation ---'') st)))\<close>
  by (simp_all add: checkLevelZeroPointFive_def checkLevelZeroPointFive_cli_def
      sample_env_without_eas_def sample_env_def pkg_json_def Let_def)

lemma sample_without_eas_sel:
  "readJson sample_env_without_eas (appJsonPath sample_env_without_eas) = Inr (app_with_sdk (Some (JNum 35)))"
  "\<not> existsSync sample_env_without_eas (easJsonPath sample_env_without_eas)"
  by (simp_all add: sample_env_without_eas_def sample_env_def appJsonPath_def easJsonPath_def
      arg_or_default_def)

section \<open>Verdict and termination status\<close>

lemma run_cases:
  "(\<exists>st. checks e = Next () st \<and> run e = summary st)
   \<or> (\<exists>c st. checks e = Exit c st \<and> run e = Exit c st)
   \<or> (\<exists>m st. checks e = Throw m st \<and> run e = Throw m st)"
  by (cases "checks e") (auto simp: run_def)

lemma summary_effect:
  "summary st =
     (if hasFails st
      then Exit 1 (console_error
             (red ''[!] Preflight failed. Fix the [FAIL] errors above before running the build.''
              @ [CHR 0x0A]) (console_log (CHR 0x0A # ''----------------------------------------'') st))
      else Exit 0 (console_log
             (green (''['' @ check_mark @ ''] Configuration preflight completed successfully.'')
              @ [CHR 0x0A]) (console_log (CHR 0x0A # ''----------------------------------------'') st)))"
  by (simp add: summary_def Let_def)

text \<open>
  C1. For every run of the direct-parse script: the failure flag at the end of the run is
  set exactly when a FAIL finding was emitted; the termination status is zero exactly
  when no FAIL finding was emitted and the process did not end before the summary (by an
  early \<open>process.exit\<close> or an escaping exception); a run that reaches the summary prints
  the failure line exactly when a FAIL finding was emitted; and logging a WARN changes
  neither the flag nor the presence of a FAIL finding.
\<close>

theorem verdict_and_status:
  "hasFails (final (run e)) = has_FAIL (final (run e))
   \<and> (status (run e) = 0 \<longleftrightarrow> \<not> has_FAIL (final (run e)) \<and> \<not> fatal e)
   \<and> (\<not> fatal e \<longrightarrow>
        last (out (final (run e)))
          = (if has_FAIL (final (run e))
             then Err (red ''[!] Preflight failed. Fix the [FAIL] errors above before running the build.''
                       @ [CHR 0x0A])
             else Log (green (''['' @ check_mark @ ''] Configuration preflight completed successfully.'')
                       @ [CHR 0x0A])))
   \<and> hasFails (logStatus WARN m st) = hasFails st
   \<and> has_FAIL (logStatus WARN m st) = has_FAIL st"
proof -
  have snd: "sound (checks e)" by (rule sound_checks)
  show ?thesis
  proof (cases "checks e")
    case (Next x st')
    with snd have "consistent st'" by simp
    then have "hasFails st' = has_FAIL st'" by (simp add: consistent_def)
    with Next show ?thesis
      by (simp add: run_def fatal_def summary_effect)
  next
    case (Exit c st')
    with snd have "consistent st'" "c = 1" by simp_all
    with Exit show ?thesis
      by (simp add: run_def fatal_def consistent_def)
  next
    case (Throw m' st')
    with snd have "consistent st'" by simp
    with Throw show ?thesis
      by (simp add: run_def fatal_def consistent_def)
  qed
qed

theorem verdict_and_status_witness:
  "status (run (sample_env (Inr (app_with_sdk (Some (JNum 35)))) (Inr (eas_production True)) (Some []))) = 0
   \<and> \<not> has_FAIL (final (run (sample_env (Inr (app_with_sdk (Some (JNum 35)))) (Inr (eas_production True)) (Some []))))
   \<and> \<not> fatal (sample_env (Inr (app_with_sdk (Some (JNum 35)))) (Inr (eas_production True)) (Some []))
   \<and> status (run (sample_env (Inr (app_with_sdk (Some (JNum 35)))) (Inr (eas_production False)) (Some []))) \<noteq> 0
   \<and> last (out (final (run (sample_env (Inr (app_with_sdk (Some (JNum 35)))) (Inr (eas_production True)) (Some [])))))
      = Log (green (''['' @ check_mark @ ''] Configuration preflight completed successfully.'') @ [CHR 0x0A])"
proof -
  let ?good = "sample_env (Inr (app_with_sdk (Some (JNum 35)))) (Inr (eas_production True)) (Some [])"
  let ?bad = "sample_env (Inr (app_with_sdk (Some (JNum 35)))) (Inr (eas_production False)) (Some [])"
  have 1: "\<not> fatal ?good"
    by (simp add: fatal_def sample_returns)
  have 2: "\<not> has_FAIL (final (run ?good))"
    by (subst run_def, subst sample_checks_returns) (simp add: sample_checks_has_FAIL)
  have 3: "has_FAIL (final (run ?bad))"
    by (subst run_def, subst sample_checks_returns) (simp add: sample_checks_has_FAIL)
  have 4: "status (run ?bad) \<noteq> 0"
    using verdict_and_status [of ?bad] 3 by simp
  show ?thesis
    using verdict_and_status [of ?good] 1 2 4 by simp
qed

section \<open>Fatal preconditions\<close>

lemma bind_Next_iff:
  "bind r f = Next y st \<longleftrightarrow> (\<exists>x st'. r = Next x st' \<and> f x st' = Next y st)"
  by (cases r) auto

lemmas rules_length [simp] =
  rules_shape(6-11) [THEN one_finding_length] rules_shape_cli(6-10) [THEN one_finding_length]

lemmas rules_step_length = rules_shape(1-5) [THEN one_step_length] rules_shape_cli(1-5) [THEN one_step_length]

lemma basics_more_findings:
  "checkLevelZeroBasics e appJson st = Next () st' \<Longrightarrow> length (findings st) < length (findings st')"
  by (auto simp: checkLevelZeroBasics_def Let_def bind_Next_iff dest!: rules_step_length
      split: if_splits sum.splits)

lemma basics_cli_more_findings:
  "checkLevelZeroBasics_cli e appJson st = Next () st' \<Longrightarrow> length (findings st) < length (findings st')"
  by (auto simp: checkLevelZeroBasics_cli_def Let_def bind_Next_iff dest!: rules_step_length
      split: if_splits sum.splits)

lemma validateAppJson_more_findings:
  "validateAppJson lt appJson st = Next () st' \<Longrightarrow> length (findings st) < length (findings st')"
  by (auto simp: validateAppJson_def Let_def bind_Next_iff dest!: rules_step_length
      split: if_splits sum.splits)

lemma validateAppJson_cli_more_findings:
  "validateAppJson_cli lt appJson st = Next () st' \<Longrightarrow> length (findings st) < length (findings st')"
  by (auto simp: validateAppJson_cli_def Let_def bind_Next_iff dest!: rules_step_length
      split: if_splits sum.splits)

lemma p05_findings:
  assumes "checkLevelZeroPointFive e st = Next () st1"
  shows \<open>findings st1 = findings st @
           [(PASS, ''Expo project detected (found "expo" in package.json dependencies).''),
            (PASS, ''node_modules directory found.'')]\<close>
  using assms
  by (auto simp: checkLevelZeroPointFive_def Let_def split: if_splits sum.splits)

lemma p05_cli_findings:
  assumes "checkLevelZeroPointFive_cli e st = Next () st1"
  shows \<open>findings st1 = findings st @
           [(PASS, ''Expo project detected (found "expo" in dependencies).''),
            (PASS, ''node_modules directory found.'')]\<close>
  using assms
  by (auto simp: checkLevelZeroPointFive_cli_def Let_def split: if_splits sum.splits)


lemma resolved_findings:
  assumes "getResolvedExpoConfig e st = Next appJson st2"
  shows "findings st2 = findings st @ [(PASS, ''Configuration evaluated successfully.'')]"
  using assms
  by (auto simp: getResolvedExpoConfig_def resolve_failed_def Let_def
      split: option.splits sum.splits if_splits)

lemma resolve_fails:
  assumes "\<not> returns (getResolvedExpoConfig e st)"
  shows "getResolvedExpoConfig e st
           = Exit 1 (logStatus FAIL
               ''Failed to evaluate Expo config. Ensure your app.config.js has no syntax errors.''
               (console_log (CHR 0x0A # ''--- Resolving Expo Configuration ---'') st))"
  using assms
  by (auto simp: getResolvedExpoConfig_def resolve_failed_def Let_def
      split: option.splits sum.splits if_splits)

lemma summary_cli_effect:
  "summary_cli st =
     (if hasFails st
      then Exit 1 (console_error (red ''[!] Preflight failed. Fix errors above.'' @ [CHR 0x0A])
             (console_log (CHR 0x0A # ''----------------------------------------'') st))
      else Exit 0 (console_log
             (green (''['' @ check_mark_garbled @ ''] Preflight successful.'') @ [CHR 0x0A])
             (console_log (CHR 0x0A # ''----------------------------------------'') st)))"
  by (simp add: summary_cli_def Let_def)

lemma sample_resolved:
  "getResolvedExpoConfig (sample_env (Inr (app_with_sdk sdk)) eas git) st =
     Next (app_with_sdk sdk)
       (logStatus PASS ''Configuration evaluated successfully.''
         (console_log (CHR 0x0A # ''--- Resolving Expo Configuration ---'') st))"
  by (simp add: getResolvedExpoConfig_def sample_env_def app_with_sdk_def expo_with_sdk_def Let_def)

lemma sample_without_eas_resolved:
  "getResolvedExpoConfig sample_env_without_eas st =
     Next (app_with_sdk (Some (JNum 35)))
       (logStatus PASS ''Configuration evaluated successfully.''
         (console_log (CHR 0x0A # ''--- Resolving Expo Configuration ---'') st))"
  by (simp add: getResolvedExpoConfig_def sample_env_without_eas_def sample_env_def
      app_with_sdk_def expo_with_sdk_def Let_def)

lemma sample_basics_cli:
  "checkLevelZeroBasics_cli (sample_env app eas git) (app_with_sdk sdk) st =
     Next () (logStatus PASS ''Lockfile detected.''
       (logStatus PASS ''Project linked to EAS (ID: p-1).''
         (logStatus PASS ''eas.json exists.''
           (console_log (CHR 0x0A # ''--- Level 0: Foundation Checks ---'') st))))"
  by (simp add: checkLevelZeroBasics_cli_def app_with_sdk_def expo_with_sdk_def Let_def
      projectId_rule_cli_def lockfile_rule_cli_def lockfiles_def interp_def)

lemma sample_validate_cli:
  "validateAppJson_cli nan_lt (app_with_sdk (Some (JNum 35))) st =
     Next () (logStatus PASS ''New Architecture not disabled.''
       (logStatus PASS ''Valid targetSdkVersion: 35''
         (logStatus PASS ''runtimeVersion uses fingerprint policy.''
           (logStatus PASS ''Scheme configured: myapp''
             (logStatus PASS ''Valid ios.bundleIdentifier: com.acme.app''
               (logStatus PASS ''Valid android.package: com.acme.app''
                 (console_log (CHR 0x0A # ''--- Validating Config Rules ---'') st)))))))"
  by (simp add: validateAppJson_cli_def app_with_sdk_def expo_with_sdk_def Let_def
      androidPackage_rule_cli_def iosBundle_rule_cli_def scheme_rule_cli_def
      runtimeVersion_rule_cli_def is_fingerprint_def targetSdk_rule_cli_def newArch_rule_cli_def
      interp_def sample_matches show_int_def)

text \<open>
  C3, as the code has it. Once the environment validation has passed, with its two PASS
  findings:
  in the direct-parse script an unreadable or unparsable configuration document and a
  missing build-profile document end the run at once with status 1, after one FAIL
  finding (a missing \<open>eas.json\<close> adds one line on the error stream) that nothing but
  those two PASS findings precedes;
  in the CLI script a failed configuration subprocess does the same, and a missing
  \<open>eas.json\<close> ends the run at once with status 1 after one FAIL finding that three PASS
  findings precede, the third being that of the resolved configuration;
  in both scripts a build-profile document that cannot be read or parsed is different:
  its FAIL finding comes after the findings of the foundation and configuration rules,
  the summary is printed, and the status is 1.
\<close>

theorem fatal_preconditions:
  assumes "checkLevelZeroPointFive e (console_log (''Starting Expo Build Preflight...'' @ [CHR 0x0A]) init)
             = Next () st1"
    and "checkLevelZeroPointFive_cli e (console_log (''Starting Expo Build Preflight...'' @ [CHR 0x0A]) init)
             = Next () st1'"
  shows \<open>(readJson e (appJsonPath e) = Inl m \<longrightarrow>
            run e = Exit 1 (logStatus FAIL (''Error reading '' @ appJsonPath e @ '': '' @ m) st1))
       \<and> (readJson e (appJsonPath e) = Inr appJson \<and> \<not> existsSync e (easJsonPath e) \<longrightarrow>
            run e = Exit 1
              (console_error (red ''[!] Critical failure. Run "eas build:configure" and try again.'' @ [CHR 0x0A])
                (logStatus FAIL ''eas.json not found! You must run "eas build:configure" first.''
                  (console_log (CHR 0x0A # ''--- Level 0: Foundation Checks ---'') st1))))
       \<and> (readJson e (appJsonPath e) = Inr appJson
            \<and> checkLevelZeroBasics e appJson st1 = Next () st3
            \<and> validateAppJson (str_lt e) appJson st3 = Next () st4
            \<and> readJson e (easJsonPath e) = Inl m \<longrightarrow>
            run e = Exit 1
              (console_error
                (red ''[!] Preflight failed. Fix the [FAIL] errors above before running the build.'' @ [CHR 0x0A])
                (console_log (CHR 0x0A # ''----------------------------------------'')
                  (logStatus FAIL (''Error reading '' @ easJsonPath e @ '': '' @ m) st4)))
            \<and> length (findings st1) < length (findings st3)
            \<and> length (findings st3) < length (findings st4))
       \<and> findings st1 =
            [(PASS, ''Expo project detected (found "expo" in package.json dependencies).''),
             (PASS, ''node_modules directory found.'')]
       \<and> ((expo_config e = None \<or> \<not> returns (getResolvedExpoConfig e st1')) \<longrightarrow>
            run_cli e = Exit 1
              (logStatus FAIL ''Failed to evaluate Expo config. Ensure your app.config.js has no syntax errors.''
                (console_log (CHR 0x0A # ''--- Resolving Expo Configuration ---'') st1')))
       \<and> (getResolvedExpoConfig e st1' = Next resolved st2' \<and> \<not> existsSync e (easJsonPath e) \<longrightarrow>
            run_cli e = Exit 1
              (logStatus FAIL ''eas.json not found!''
                (console_log (CHR 0x0A # ''--- Level 0: Foundation Checks ---'') st2'))
            \<and> findings st2' = findings st1' @ [(PASS, ''Configuration evaluated successfully.'')])
       \<and> (getResolvedExpoConfig e st1' = Next resolved st2'
            \<and> checkLevelZeroBasics_cli e resolved st2' = Next () st3'
            \<and> validateAppJson_cli (str_lt e) resolved st3' = Next () st4'
            \<and> readJson e (easJsonPath e) = Inl m \<longrightarrow>
            run_cli e = Exit 1
              (console_error (red ''[!] Preflight failed. Fix errors above.'' @ [CHR 0x0A])
                (console_log (CHR 0x0A # ''----------------------------------------'')
                  (logStatus FAIL (''Error reading eas.json: '' @ m) st4')))
            \<and> length (findings st1') < length (findings st3')
            \<and> length (findings st3') < length (findings st4'))
       \<and> findings st1' =
            [(PASS, ''Expo project detected (found "expo" in dependencies).''),
             (PASS, ''node_modules directory found.'')]\<close>
    (is "?A \<and> ?B \<and> ?D \<and> ?E1 \<and> ?C \<and> ?F \<and> ?G \<and> ?E2")
proof -
  have a: ?A
    using assms(1) by (simp add: run_def checks_def read_app_def)
  have b: ?B
    using assms(1) by (simp add: run_def checks_def read_app_def checkLevelZeroBasics_def Let_def)
  have d: ?D
  proof (intro impI conjI)
    assume h: "readJson e (appJsonPath e) = Inr appJson
            \<and> checkLevelZeroBasics e appJson st1 = Next () st3
            \<and> validateAppJson (str_lt e) appJson st3 = Next () st4
            \<and> readJson e (easJsonPath e) = Inl m"
    then show "run e = Exit 1
              (console_error
                (red ''[!] Preflight failed. Fix the [FAIL] errors above before running the build.'' @ [CHR 0x0A])
                (console_log (CHR 0x0A # ''----------------------------------------'')
                  (logStatus FAIL (''Error reading '' @ easJsonPath e @ '': '' @ m) st4)))"
      using assms(1) by (simp add: run_def checks_def read_app_def read_eas_def summary_effect)
    from h have "checkLevelZeroBasics e appJson st1 = Next () st3" by simp
    then show "length (findings st1) < length (findings st3)"
      by (rule basics_more_findings)
    from h have "validateAppJson (str_lt e) appJson st3 = Next () st4" by simp
    then show "length (findings st3) < length (findings st4)"
      by (rule validateAppJson_more_findings)
  qed
  have e1: ?E1
    using p05_findings [OF assms(1)] by simp
  have c: ?C
  proof
    assume "expo_config e = None \<or> \<not> returns (getResolvedExpoConfig e st1')"
    moreover have "\<not> returns (getResolvedExpoConfig e st1')" if "expo_config e = None"
      using that by (simp add: getResolvedExpoConfig_def resolve_failed_def Let_def)
    ultimately have "\<not> returns (getResolvedExpoConfig e st1')" by blast
    from resolve_fails [OF this] show "run_cli e = Exit 1
              (logStatus FAIL ''Failed to evaluate Expo config. Ensure your app.config.js has no syntax errors.''
                (console_log (CHR 0x0A # ''--- Resolving Expo Configuration ---'') st1'))"
      using assms(2) by (simp add: run_cli_def checks_cli_def)
  qed
  have f: ?F
  proof (intro impI conjI)
    assume h: "getResolvedExpoConfig e st1' = Next resolved st2' \<and> \<not> existsSync e (easJsonPath e)"
    then show "run_cli e = Exit 1
              (logStatus FAIL ''eas.json not found!''
                (console_log (CHR 0x0A # ''--- Level 0: Foundation Checks ---'') st2'))"
      using assms(2) by (simp add: run_cli_def checks_cli_def checkLevelZeroBasics_cli_def Let_def)
    from h have "getResolvedExpoConfig e st1' = Next resolved st2'" by simp
    then show "findings st2' = findings st1' @ [(PASS, ''Configuration evaluated successfully.'')]"
      by (rule resolved_findings)
  qed
  have g: ?G
  proof (intro impI conjI)
    assume h: "getResolvedExpoConfig e st1' = Next resolved st2'
            \<and> checkLevelZeroBasics_cli e resolved st2' = Next () st3'
            \<and> validateAppJson_cli (str_lt e) resolved st3' = Next () st4'
            \<and> readJson e (easJsonPath e) = Inl m"
    then show "run_cli e = Exit 1
              (console_error (red ''[!] Preflight failed. Fix errors above.'' @ [CHR 0x0A])
                (console_log (CHR 0x0A # ''----------------------------------------'')
                  (logStatus FAIL (''Error reading eas.json: '' @ m) st4')))"
      using assms(2) by (simp add: run_cli_def checks_cli_def read_eas_cli_def summary_cli_effect)
    from h have r: "getResolvedExpoConfig e st1' = Next resolved st2'" by simp
    from h have "checkLevelZeroBasics_cli e resolved st2' = Next () st3'" by simp
    then have "length (findings st2') < length (findings st3')"
      by (rule basics_cli_more_findings)
    with resolved_findings [OF r] show "length (findings st1') < length (findings st3')"
      by simp
    from h have "validateAppJson_cli (str_lt e) resolved st3' = Next () st4'" by simp
    then show "length (findings st3') < length (findings st4')"
      by (rule validateAppJson_cli_more_findings)
  qed
  have e2: ?E2
    using p05_cli_findings [OF assms(2)] by simp
  show ?thesis
    by (rule conjI [OF a conjI [OF b conjI [OF d conjI [OF e1 conjI [OF c conjI [OF f conjI [OF g e2]]]]]]])
qed

theorem fatal_preconditions_witness:
  \<open>findings (final (run (sample_env (Inl ''Unexpected token }'') (Inr (eas_production True)) (Some []))))
     = [(PASS, ''Expo project detected (found "expo" in package.json dependencies).''),
        (PASS, ''node_modules directory found.''),
        (FAIL, ''Error reading /proj/app.json: Unexpected token }'')]
   \<and> status (run (sample_env (Inl ''Unexpected token }'') (Inr (eas_production True)) (Some []))) = 1
   \<and> findings (final (run_cli (sample_env (Inl ''Unexpected token }'') (Inr (eas_production True)) (Some []))))
     = [(PASS, ''Expo project detected (found "expo" in dependencies).''),
        (PASS, ''node_modules directory found.''),
        (FAIL, ''Failed to evaluate Expo config. Ensure your app.config.js has no syntax errors.'')]
   \<and> status (run_cli (sample_env (Inl ''Unexpected token }'') (Inr (eas_production True)) (Some []))) = 1
   \<and> findings (final (run sample_env_without_eas))
     = [(PASS, ''Expo project detected (found "expo" in package.json dependencies).''),
        (PASS, ''node_modules directory found.''),
        (FAIL, ''eas.json not found! You must run "eas build:configure" first.'')]
   \<and> status (run sample_env_without_eas) = 1
   \<and> findings (final (run_cli sample_env_without_eas))
     = [(PASS, ''Expo project detected (found "expo" in dependencies).''),
        (PASS, ''node_modules directory found.''),
        (PASS, ''Configuration evaluated successfully.''),
        (FAIL, ''eas.json not found!'')]
   \<and> status (run_cli sample_env_without_eas) = 1
   \<and> status (run (sample_env (Inr (app_with_sdk (Some (JNum 35)))) (Inl ''Unexpected end of JSON input'') (Some []))) = 1
   \<and> length (findings (final (run (sample_env (Inr (app_with_sdk (Some (JNum 35))))
                                                (Inl ''Unexpected end of JSON input'') (Some []))))) = 13
   \<and> status (run_cli (sample_env (Inr (app_with_sdk (Some (JNum 35)))) (Inl ''Unexpected end of JSON input'') (Some []))) = 1
   \<and> findings (final (run_cli (sample_env (Inr (app_with_sdk (Some (JNum 35))))
                                           (Inl ''Unexpected end of JSON input'') (Some []))))
     = [(PASS, ''Expo project detected (found "expo" in dependencies).''),
        (PASS, ''node_modules directory found.''),
        (PASS, ''Configuration evaluated successfully.''),
        (PASS, ''eas.json exists.''),
        (PASS, ''Project linked to EAS (ID: p-1).''),
        (PASS, ''Lockfile detected.''),
        (PASS, ''Valid android.package: com.acme.app''),
        (PASS, ''Valid ios.bundleIdentifier: com.acme.app''),
        (PASS, ''Scheme configured: myapp''),
        (PASS, ''runtimeVersion uses fingerprint policy.''),
        (PASS, ''Valid targetSdkVersion: 35''),
        (PASS, ''New Architecture not disabled.''),
        (FAIL, ''Error reading eas.json: Unexpected end of JSON input'')]\<close>
  (is "?A1 \<and> ?A2 \<and> ?C1 \<and> ?C2 \<and> ?B1 \<and> ?B2 \<and> ?F1 \<and> ?F2 \<and> ?D1 \<and> ?D2 \<and> ?G1 \<and> ?G2")
proof -
  let ?a = "sample_env (Inl ''Unexpected token }'') (Inr (eas_production True)) (Some [])"
  let ?d = "sample_env (Inr (app_with_sdk (Some (JNum 35)))) (Inl ''Unexpected end of JSON input'') (Some [])"
  let ?w = "sample_env_without_eas"
  let ?app = "app_with_sdk (Some (JNum 35))"
  let ?s0 = "console_log (''Starting Expo Build Preflight...'' @ [CHR 0x0A]) init"
  let ?d1 = "final (checkLevelZeroPointFive ?d ?s0)"
  let ?d3 = "final (checkLevelZeroBasics ?d ?app ?d1)"
  let ?d4 = "final (validateAppJson nan_lt ?app ?d3)"
  let ?c1 = "final (checkLevelZeroPointFive_cli ?d ?s0)"
  let ?c2 = "final (getResolvedExpoConfig ?d ?c1)"
  let ?c3 = "final (checkLevelZeroBasics_cli ?d ?app ?c2)"
  let ?c4 = "final (validateAppJson_cli nan_lt ?app ?c3)"
  let ?w1 = "final (checkLevelZeroPointFive_cli ?w ?s0)"
  let ?w2 = "final (getResolvedExpoConfig ?w ?w1)"
  have a: "readJson ?a (appJsonPath ?a) = Inl ''Unexpected token }''"
    by simp
  have a': "expo_config ?a = None"
    by (simp add: sample_env_def)
  have d: "readJson ?d (appJsonPath ?d) = Inr ?app"
          "readJson ?d (easJsonPath ?d) = Inl ''Unexpected end of JSON input''"
          "str_lt ?d = nan_lt"
    by simp_all
  have dp: "checkLevelZeroPointFive ?d ?s0 = Next () ?d1"
    by (simp add: sample_p05)
  have db: "checkLevelZeroBasics ?d ?app ?d1 = Next () ?d3"
    by (simp add: sample_basics)
  have dv: "validateAppJson nan_lt ?app ?d3 = Next () ?d4"
    by (simp add: sample_validate)
  have cp: "checkLevelZeroPointFive_cli ?d ?s0 = Next () ?c1"
    by (simp add: sample_p05_cli)
  have cr: "getResolvedExpoConfig ?d ?c1 = Next ?app ?c2"
    by (simp add: sample_resolved)
  have cb: "checkLevelZeroBasics_cli ?d ?app ?c2 = Next () ?c3"
    by (simp add: sample_basics_cli)
  have cv: "validateAppJson_cli nan_lt ?app ?c3 = Next () ?c4"
    by (simp add: sample_validate_cli)
  have wp: "checkLevelZeroPointFive_cli ?w ?s0 = Next () ?w1"
    by (simp add: sample_without_eas_p05)
  have wr: "getResolvedExpoConfig ?w ?w1 = Next ?app ?w2"
    by (simp add: sample_without_eas_resolved)
  note A = fatal_preconditions [where e = ?a and m = "''Unexpected token }''",
              OF sample_p05 sample_p05_cli]
  note B = fatal_preconditions [where e = ?w and appJson = ?app and resolved = ?app
              and st2' = ?w2, OF sample_without_eas_p05(1) wp]
  note D = fatal_preconditions [where e = ?d and appJson = ?app and resolved = ?app
              and m = "''Unexpected end of JSON input''"
              and ?st3.0 = ?d3 and ?st4.0 = ?d4 and st2' = ?c2 and st3' = ?c3 and st4' = ?c4,
              OF dp cp]
  have a1: "?A1 \<and> ?A2"
    using A a by simp
  have c1: "?C1 \<and> ?C2"
    using A a' by simp
  have b1: "?B1 \<and> ?B2"
    using B sample_without_eas_sel by simp
  have f1: "?F1 \<and> ?F2"
    using B sample_without_eas_sel wr by simp
  have d1: "?D1 \<and> ?D2"
    using D d db dv by (simp add: sample_basics sample_validate sample_git_clean)
  have g1: "?G1 \<and> ?G2"
    using D d cr cb cv by (simp add: sample_basics_cli sample_validate_cli sample_resolved)
  show ?thesis
    using a1 c1 b1 f1 d1 g1 by blast
qed

text \<open>
  A run of the direct-parse script in which \<open>eas.json\<close> exists but does not parse: the
  findings of the foundation and configuration rules are all emitted before the FAIL for
  the document, and the run ends with the summary line instead of stopping at once.
\<close>

theorem malformed_profile_counterexample:
  \<open>findings (final (run (sample_env (Inr (app_with_sdk (Some (JNum 35))))
                                     (Inl ''Unexpected end of JSON input'') (Some []))))
     = [(PASS, ''Expo project detected (found "expo" in package.json dependencies).''),
        (PASS, ''node_modules directory found.''),
        (PASS, ''eas.json exists.''),
        (PASS, ''Project linked to EAS (ID: p-1).''),
        (PASS, ''Lockfile detected.''),
        (PASS, ''Git working tree is clean.''),
        (PASS, ''Valid android.package: com.acme.app''),
        (PASS, ''Valid ios.bundleIdentifier: com.acme.app''),
        (PASS, ''Scheme configured: myapp''),
        (PASS, ''runtimeVersion configured with fingerprint policy.''),
        (PASS, ''Valid targetSdkVersion: 35''),
        (PASS, ''New Architecture (newArchEnabled) is not disabled.''),
        (FAIL, ''Error reading /proj/eas.json: Unexpected end of JSON input'')]
   \<and> last (out (final (run (sample_env (Inr (app_with_sdk (Some (JNum 35))))
                                        (Inl ''Unexpected end of JSON input'') (Some [])))))
     = Err (red ''[!] Preflight failed. Fix the [FAIL] errors above before running the build.'' @ [CHR 0x0A])\<close>
  by (simp add: run_def checks_def sample_p05 read_app_def sample_basics sample_validate
      sample_read_eas_failed sample_git_clean summary_effect)

section \<open>The build-profile rules\<close>

lemma checks_Next:
  assumes "checks e = Next () st"
  shows "\<exists>st4. st = read_eas e st4"
  using assms unfolding checks_def bind_Next_iff by auto

text \<open>
  C4. When the \<open>production\<close> profile is absent from the build-profile document,
  \<open>validateEasJson\<close> emits the FAIL of the profile-existence rule and nothing else: the
  auto-increment and environment-variable rules are skipped. In a run that reads such a
  document the termination status is 1, and that FAIL is the last finding of a run that
  reaches the summary.
\<close>

theorem missing_production_profile:
  assumes "\<not> truthy (get_opt (get_opt (Some easJson) ''build'') ''production'')"
  shows \<open>validateEasJson easJson st
           = logStatus FAIL ''"build.production" profile not found in eas.json.''
               (console_log (CHR 0x0A # ''--- Validating eas.json ---'') st)
       \<and> findings (validateEasJson easJson st)
           = findings st @ [(FAIL, ''"build.production" profile not found in eas.json.'')]
       \<and> (readJson e (easJsonPath e) = Inr easJson \<longrightarrow> status (run e) = 1)
       \<and> (readJson e (easJsonPath e) = Inr easJson \<and> \<not> fatal e \<longrightarrow>
            last (findings (final (run e)))
              = (FAIL, ''"build.production" profile not found in eas.json.''))\<close>
    (is "?A \<and> ?B \<and> ?C \<and> ?D")
proof -
  have gen: \<open>validateEasJson easJson s
           = logStatus FAIL ''"build.production" profile not found in eas.json.''
               (console_log (CHR 0x0A # ''--- Validating eas.json ---'') s)\<close> for s
    using assms by (simp add: validateEasJson_def Let_def)
  have a: ?A
    by (rule gen)
  have b: ?B
    by (simp add: gen)
  have reach: "last (findings st') = (FAIL, ''\"build.production\" profile not found in eas.json.'') \<and> hasFails st'"
    if "readJson e (easJsonPath e) = Inr easJson" and "checks e = Next () st'" for st'
  proof -
    from checks_Next [OF that(2)] obtain st4 where "st' = read_eas e st4" ..
    with that(1) have "st' = validateEasJson easJson st4"
      by (simp add: read_eas_def)
    then show ?thesis by (simp add: gen)
  qed
  have c: ?C
  proof
    assume r: "readJson e (easJsonPath e) = Inr easJson"
    have snd: "sound (checks e)" by (rule sound_checks)
    show "status (run e) = 1"
    proof (cases "checks e")
      case (Next x st')
      with reach [OF r] have "hasFails st'" by simp
      with Next show ?thesis by (simp add: run_def summary_effect)
    next
      case (Exit c st')
      with snd show ?thesis by (simp add: run_def)
    next
      case (Throw m st')
      then show ?thesis by (simp add: run_def)
    qed
  qed
  have d: ?D
  proof
    assume h: "readJson e (easJsonPath e) = Inr easJson \<and> \<not> fatal e"
    then obtain st' where n: "checks e = Next () st'"
      by (cases "checks e") (auto simp: fatal_def)
    with reach h have "last (findings st') = (FAIL, ''\"build.production\" profile not found in eas.json.'')"
      by blast
    with n show "last (findings (final (run e)))
              = (FAIL, ''\"build.production\" profile not found in eas.json.'')"
      by (simp add: run_def)
  qed
  show ?thesis
    by (rule conjI [OF a conjI [OF b conjI [OF c d]]])
qed

theorem missing_production_profile_witness:
  \<open>findings (validateEasJson eas_preview_only init)
     = [(FAIL, ''"build.production" profile not found in eas.json.'')]
   \<and> \<not> fatal (sample_env (Inr (app_with_sdk (Some (JNum 35)))) (Inr eas_preview_only) (Some []))
   \<and> status (run (sample_env (Inr (app_with_sdk (Some (JNum 35)))) (Inr eas_preview_only) (Some []))) = 1
   \<and> last (findings (final (run (sample_env (Inr (app_with_sdk (Some (JNum 35)))) (Inr eas_preview_only) (Some [])))))
     = (FAIL, ''"build.production" profile not found in eas.json.'')\<close>
proof -
  let ?e = "sample_env (Inr (app_with_sdk (Some (JNum 35)))) (Inr eas_preview_only) (Some [])"
  have absent: "\<not> truthy (get_opt (get_opt (Some eas_preview_only) ''build'') ''production'')"
    by (simp add: eas_preview_only_def)
  have r: "readJson ?e (easJsonPath ?e) = Inr eas_preview_only"
    by simp
  have nf: "\<not> fatal ?e"
    by (simp add: fatal_def sample_returns)
  show ?thesis
    using missing_production_profile [OF absent, where e = ?e and st = init] r nf by simp
qed

section \<open>The version-control check\<close>

lemma same_course_refl [simp]: "same_course r r"
  by (cases r) auto

lemma same_course_status: "same_course r r' \<Longrightarrow> status r = status r'"
  by (cases r; cases r') auto

lemma same_course_bind:
  assumes "same_course r r'"
    and "\<And>x st st'. hasFails st = hasFails st' \<Longrightarrow> same_course (f x st) (f' x st')"
  shows "same_course (bind r f) (bind r' f')"
  using assms by (cases r; cases r') auto

lemmas rules_flag_cong = rules_shape(6-11) [THEN one_finding_flag_cong]

lemmas rules_step_course = rules_shape(1-5) [THEN one_step_same_course]

lemma validateAppJson_same_course:
  "hasFails st = hasFails st' \<Longrightarrow> same_course (validateAppJson lt a st) (validateAppJson lt a st')"
  by (auto simp: validateAppJson_def Let_def
      intro!: same_course_bind rules_step_course rules_flag_cong split: sum.split)

lemma read_app_same_course:
  "hasFails st = hasFails st' \<Longrightarrow> same_course (read_app e st) (read_app e st')"
  by (auto simp: read_app_def split: sum.split)

lemma read_eas_flag_cong:
  "hasFails st = hasFails st' \<Longrightarrow> hasFails (read_eas e st) = hasFails (read_eas e st')"
  by (auto simp: read_eas_def validateEasJson_def Let_def intro!: rules_flag_cong split: sum.split)

lemma summary_same_course:
  "hasFails st = hasFails st' \<Longrightarrow> same_course (summary st) (summary st')"
  by (simp add: summary_effect)

lemma git_rule_cases:
  "(\<forall>st. git_rule e st = logStatus WARN ''You have uncommitted Git changes. EAS Build uploads your committed code by default. Uncommitted changes might not be included in the build!'' st)
   \<or> (\<forall>st. git_rule e st = logStatus PASS ''Git working tree is clean.'' st)
   \<or> (\<forall>st. git_rule e st = logStatus WARN ''Could not check Git status. Ensure you are in a valid Git repository.'' st)"
  by (cases "git_status e") (auto simp: git_rule_def Let_def)

lemma git_rule_keeps_flag: "hasFails (git_rule e st) = hasFails st"
  using git_rule_cases [of e] by auto

lemma lockfile_ignores_git: "lockfile_rule (e\<lparr>git_status := g\<rparr>) st = lockfile_rule e st"
  by (simp add: lockfile_rule_def)

lemma basics_same_course:
  "hasFails st = hasFails st' \<Longrightarrow>
     same_course (checkLevelZeroBasics (e\<lparr>git_status := g\<rparr>) a st) (checkLevelZeroBasics e a st')"
  by (auto simp: checkLevelZeroBasics_def Let_def easJsonPath_def arg_or_default_def
      lockfile_ignores_git git_rule_keeps_flag
      intro!: same_course_bind rules_step_course rules_flag_cong split: sum.split option.split)

lemma p05_ignores_git: "checkLevelZeroPointFive (e\<lparr>git_status := g\<rparr>) st = checkLevelZeroPointFive e st"
    by (simp add: checkLevelZeroPointFive_def cong: if_cong sum.case_cong)

lemma paths_ignore_git: "appJsonPath (e\<lparr>git_status := g\<rparr>) = appJsonPath e"
              "easJsonPath (e\<lparr>git_status := g\<rparr>) = easJsonPath e"
    by (simp_all add: appJsonPath_def easJsonPath_def arg_or_default_def split: option.split)

lemma read_app_ignores_git: "read_app (e\<lparr>git_status := g\<rparr>) st = read_app e st" 
    by (simp add: read_app_def paths_ignore_git cong: sum.case_cong)

lemma read_eas_ignores_git: "read_eas (e\<lparr>git_status := g\<rparr>) st = read_eas e st" 
    by (simp add: read_eas_def paths_ignore_git cong: sum.case_cong)

lemma str_lt_ignores_git: "str_lt (e\<lparr>git_status := g\<rparr>) = str_lt e"
  by simp

lemma checks_ignore_git:  "same_course (checks (e\<lparr>git_status := g\<rparr>)) (checks e)"
    unfolding checks_def p05_ignores_git read_app_ignores_git read_eas_ignores_git str_lt_ignores_git
    apply (rule same_course_bind)
     apply (rule same_course_refl)
    apply (rule same_course_bind)
     apply (erule read_app_same_course)
    apply (rule same_course_bind)
     apply (erule basics_same_course)
    apply (rule same_course_bind)
     apply (erule validateAppJson_same_course)
    apply (simp only: same_course.simps simp_thms)
    apply (erule read_eas_flag_cong)
    done

lemma git_status_irrelevant:
  "same_course (run (e\<lparr>git_status := g\<rparr>)) (run e)"
    unfolding run_def
    by (rule same_course_bind [OF checks_ignore_git]) (erule summary_same_course)

lemma sample_git_dirty:
  "trim ('' M app.json'' @ [CHR 0x0A]) \<noteq> []"
  by (simp add: trim_def is_space_def)

lemma sample_good_status:
  "status (run (sample_env (Inr (app_with_sdk (Some (JNum 35)))) (Inr (eas_production True)) (Some []))) = 0"
proof -
  let ?good = "sample_env (Inr (app_with_sdk (Some (JNum 35)))) (Inr (eas_production True)) (Some [])"
  have "\<not> has_FAIL (final (checks ?good))"
    by (simp add: sample_checks_has_FAIL)
  moreover have "consistent (final (checks ?good))"
    by (rule sound_final [OF sound_checks])
  ultimately have "\<not> hasFails (final (checks ?good))"
    by (simp add: consistent_def)
  then show ?thesis
    by (subst run_def, subst sample_checks_returns) (simp add: summary_effect)
qed

text \<open>
  C8. The version-control check emits WARN when \<open>git status --porcelain\<close> prints
  something, WARN when the command cannot be run, PASS on a clean tree, and never FAIL: it
  leaves the failure flag and the presence of a FAIL finding as they were, and the
  termination status of a run does not depend on what the probe reports.
\<close>

theorem vcs_check_never_fails:
  "(git_status e = None \<longrightarrow>
      git_rule e st = logStatus WARN ''Could not check Git status. Ensure you are in a valid Git repository.'' st)
   \<and> (git_status e = Some s \<and> trim s \<noteq> [] \<longrightarrow>
      git_rule e st = logStatus WARN ''You have uncommitted Git changes. EAS Build uploads your committed code by default. Uncommitted changes might not be included in the build!'' st)
   \<and> (git_status e = Some s \<and> trim s = [] \<longrightarrow>
      git_rule e st = logStatus PASS ''Git working tree is clean.'' st)
   \<and> hasFails (git_rule e st) = hasFails st
   \<and> has_FAIL (git_rule e st) = has_FAIL st
   \<and> status (run (e\<lparr>git_status := g\<rparr>)) = status (run e)"
proof -
  have 1: "has_FAIL (git_rule e st) = has_FAIL st"
    using git_rule_cases [of e] by auto
  have 2: "status (run (e\<lparr>git_status := g\<rparr>)) = status (run e)"
    by (rule same_course_status [OF git_status_irrelevant])
  have 3: "hasFails (git_rule e st) = hasFails st"
    by (rule git_rule_keeps_flag)
  show ?thesis
    unfolding 1 2 3 by (simp add: git_rule_def Let_def)
qed

theorem vcs_check_never_fails_witness:
  "findings (git_rule (sample_env (Inr (app_with_sdk (Some (JNum 35)))) (Inr (eas_production True))
                        (Some ('' M app.json'' @ [CHR 0x0A]))) init)
     = [(WARN, ''You have uncommitted Git changes. EAS Build uploads your committed code by default. Uncommitted changes might not be included in the build!'')]
   \<and> findings (git_rule (sample_env (Inr (app_with_sdk (Some (JNum 35)))) (Inr (eas_production True)) None) init)
     = [(WARN, ''Could not check Git status. Ensure you are in a valid Git repository.'')]
   \<and> findings (git_rule (sample_env (Inr (app_with_sdk (Some (JNum 35)))) (Inr (eas_production True)) (Some [])) init)
     = [(PASS, ''Git working tree is clean.'')]
   \<and> status (run ((sample_env (Inr (app_with_sdk (Some (JNum 35)))) (Inr (eas_production True)) (Some []))
                     \<lparr>git_status := None\<rparr>)) = 0"
proof -
  let ?e = "sample_env (Inr (app_with_sdk (Some (JNum 35)))) (Inr (eas_production True))"
  have 1: "git_rule (?e (Some ('' M app.json'' @ [CHR 0x0A]))) init
           = logStatus WARN ''You have uncommitted Git changes. EAS Build uploads your committed code by default. Uncommitted changes might not be included in the build!'' init"
    using vcs_check_never_fails [where e = "?e (Some ('' M app.json'' @ [CHR 0x0A]))"
            and s = "'' M app.json'' @ [CHR 0x0A]" and st = init] sample_git_dirty
    by simp
  have 2: "git_rule (?e None) init
           = logStatus WARN ''Could not check Git status. Ensure you are in a valid Git repository.'' init"
    using vcs_check_never_fails [where e = "?e None" and st = init] by simp
  have 3: "git_rule (?e (Some [])) init = logStatus PASS ''Git working tree is clean.'' init"
    using vcs_check_never_fails [where e = "?e (Some [])" and s = "[]" and st = init]
    by (simp add: trim_def)
  have 4: "status (run ((?e (Some []))\<lparr>git_status := None\<rparr>)) = 0"
    using vcs_check_never_fails [where e = "?e (Some [])" and g = None] sample_good_status
    by simp
  show ?thesis
    unfolding 1 2 3 4 by simp
qed

section \<open>Sample runs of the asset script\<close>

lemma assets_env_sel [simp]:
  "existsSync (assets_env app files probe) p
     = (p \<in> set (''/proj/app.json'' # map (\<lambda>f. ''/proj/'' @ f) files))"
  "readFileSync (assets_env app files probe) ''/proj/app.json'' = Inr ''{...}''"
  "JSON_parse (assets_env app files probe) ''{...}'' = Some app"
  "sizeOf (assets_env app files probe) = (if probe then Some sample_probe else None)"
  "join_cwd (assets_env app files probe) p = ''/proj/'' @ p"
  "appJsonPath (assets_env app files probe) = ''/proj/app.json''"
  by (simp_all add: assets_env_def sample_env_def appJsonPath_def arg_or_default_def)

lemma assets_load_config:
  "load_config (assets_env (app_with_icons ai) files probe) st =
     Next (Some (expo_with_icons ai)) (console_log (''--- Validating Expo Assets ---'' @ [CHR 0x0A]) st)"
  by (simp add: load_config_def app_with_icons_def expo_with_icons_def Let_def)

lemma assets_icon:
  "icon_check (assets_env app sample_files probe) (Some (expo_with_icons ai)) st =
     Next () (if probe
              then logStatus PASS ''[Global Icon] Dimensions are correct (1024x1024).''
                     (logStatus PASS ''[Global Icon] File exists: assets/icon.png'' st)
              else logStatus PASS ''[Global Icon] File exists: assets/icon.png'' st)"
  by (simp add: icon_check_def check_sized_def checkFileExistence_def checkDimensions_def
      expo_with_icons_def sample_files_def sample_probe_def show_int_def Let_def)

lemma assets_splash:
  "splash_check (assets_env app sample_files probe) (Some (expo_with_icons ai)) st =
     Next () (logStatus PASS ''[Splash Screen] File exists: assets/splash.png'' st)"
  by (simp add: splash_check_def checkFileExistence_def expo_with_icons_def sample_files_def Let_def)

lemma assets_adaptive_both:
  "adaptiveIcon_check (assets_env app sample_files probe) (Some (expo_with_icons icon_with_both)) st =
     Next () (logStatus PASS ''Android Adaptive Icon background color is set: #ffffff''
       (if probe
        then logStatus PASS ''[Android Foreground Image] Dimensions are correct (1024x1024).''
               (logStatus PASS ''[Android Foreground Image] File exists: assets/fg.png'' st)
        else logStatus PASS ''[Android Foreground Image] File exists: assets/fg.png'' st))"
  by (simp add: adaptiveIcon_check_def foreground_check_def background_check_def check_sized_def
      checkFileExistence_def checkDimensions_def expo_with_icons_def icon_with_both_def
      sample_files_def sample_probe_def show_int_def interp_def Let_def)


lemma assets_adaptive_image:
  "adaptiveIcon_check (assets_env app sample_files probe) (Some (expo_with_icons icon_with_image)) st =
     Next () (logStatus FAIL ''[Android Background Image] File not found at path: assets/bg.png''
       (if probe
        then logStatus FAIL ''[Android Foreground Image] Invalid dimensions. Expected 1024x1024, got 512x512.''
               (logStatus PASS ''[Android Foreground Image] File exists: assets/small.png'' st)
        else logStatus PASS ''[Android Foreground Image] File exists: assets/small.png'' st))"
  by (simp add: adaptiveIcon_check_def foreground_check_def background_check_def check_sized_def
      checkFileExistence_def checkDimensions_def expo_with_icons_def icon_with_image_def
      sample_files_def sample_probe_def show_int_def interp_def Let_def)

lemma assets_no_ios:
  "iosIcon_check e (Some (expo_with_icons ai)) st = Next () st"
  by (simp add: iosIcon_check_def expo_with_icons_def)

lemma summary_assets_effect:
  "summary_assets st =
     (if hasFails st
      then Exit 1 (console_error
             (red ''[!] Asset validation failed. Please fix the [FAIL] issues above.'' @ [CHR 0x0A])
             (console_log (CHR 0x0A # ''----------------------------------------'') st))
      else Exit 0 (console_log
             (green (''['' @ check_mark_garbled @ ''] Asset preflight completed successfully.'') @ [CHR 0x0A])
             (console_log (CHR 0x0A # ''----------------------------------------'') st)))"
  by (simp add: summary_assets_def Let_def)

lemma sample_run_both:
  "check_assets (assets_env (app_with_icons icon_with_both) sample_files True) =
     Exit 0 (console_log
       (green (''['' @ check_mark_garbled @ ''] Asset preflight completed successfully.'') @ [CHR 0x0A])
       (console_log (CHR 0x0A # ''----------------------------------------'')
         (logStatus PASS ''Android Adaptive Icon background color is set: #ffffff''
           (logStatus PASS ''[Android Foreground Image] Dimensions are correct (1024x1024).''
             (logStatus PASS ''[Android Foreground Image] File exists: assets/fg.png''
               (logStatus PASS ''[Splash Screen] File exists: assets/splash.png''
                 (logStatus PASS ''[Global Icon] Dimensions are correct (1024x1024).''
                   (logStatus PASS ''[Global Icon] File exists: assets/icon.png''
                     (console_log (''--- Validating Expo Assets ---'' @ [CHR 0x0A]) init)))))))))"
  by (simp add: check_assets_def load_image_size_def run_assets_def assets_load_config
      asset_checks_def assets_icon assets_splash assets_adaptive_both assets_no_ios
      summary_assets_effect)

section \<open>The background of the adaptive icon\<close>




section \<open>The steps of the asset script\<close>

lemma final_bind:
  "final (bind r f) = (case r of Next x st \<Rightarrow> final (f x st) | Exit c st \<Rightarrow> st | Throw m st \<Rightarrow> st)"
  by (cases r) simp_all

lemma logStatus_inject:
  "logStatus s m st = logStatus s' m' st \<longleftrightarrow> s = s' \<and> m = m'"
  by (auto simp: logStatus_def dest: arg_cong [where f = out])

text \<open>What the two helper functions can do to the state.\<close>

lemma checkFileExistence_cases:
  "(\<exists>m. checkFileExistence e fp name st = Throw m st)
   \<or> (\<exists>p. checkFileExistence e fp name st
          = Next None (logStatus FAIL (''['' @ name @ ''] File not found at path: '' @ p) st))
   \<or> (\<exists>p full. checkFileExistence e fp name st
          = Next (Some full) (logStatus PASS (''['' @ name @ ''] File exists: '' @ p) st))"
proof (cases fp)
  case None
  then show ?thesis by (simp add: checkFileExistence_def)
next
  case (Some j)
  then show ?thesis by (cases j) (simp_all add: checkFileExistence_def Let_def logStatus_inject)
qed

lemma checkDimensions_cases:
  "checkDimensions e fp name w h st = st
   \<or> (\<exists>s r. checkDimensions e fp name w h st
          = logStatus s (''['' @ name @ ''] Could not parse image dimensions.'' @ r) st)
   \<or> (\<exists>s r. checkDimensions e fp name w h st
          = logStatus s (''['' @ name @ ''] Invalid dimensions.'' @ r) st)
   \<or> (\<exists>s r. checkDimensions e fp name w h st
          = logStatus s (''['' @ name @ ''] Dimensions are correct'' @ r) st)"
  by (simp add: checkDimensions_def logStatus_inject split: option.split sum.split prod.split)

lemma checkDimensions_None [simp]:
  "checkDimensions e None name w h st = st"
  by (simp add: checkDimensions_def split: option.split)

lemma check_sized_cases:
  "(\<exists>m. check_sized e fp name st = Throw m st)
   \<or> (\<exists>p. check_sized e fp name st
          = Next () (logStatus FAIL (''['' @ name @ ''] File not found at path: '' @ p) st))
   \<or> (\<exists>p full. check_sized e fp name st
          = Next () (checkDimensions e (Some full) name 1024 1024
              (logStatus PASS (''['' @ name @ ''] File exists: '' @ p) st)))"
  using checkFileExistence_cases [of e fp name st]
proof (elim disjE exE)
  fix m
  assume "checkFileExistence e fp name st = Throw m st"
  then have "check_sized e fp name st = Throw m st"
    by (simp only: check_sized_def bind.simps)
  then show ?thesis by blast
next
  fix p
  assume "checkFileExistence e fp name st
            = Next None (logStatus FAIL (''['' @ name @ ''] File not found at path: '' @ p) st)"
  then have "check_sized e fp name st
               = Next () (logStatus FAIL (''['' @ name @ ''] File not found at path: '' @ p) st)"
    by (simp only: check_sized_def bind.simps checkDimensions_None)
  then show ?thesis by blast
next
  fix p full
  assume "checkFileExistence e fp name st
            = Next (Some full) (logStatus PASS (''['' @ name @ ''] File exists: '' @ p) st)"
  then have "check_sized e fp name st
               = Next () (checkDimensions e (Some full) name 1024 1024
                   (logStatus PASS (''['' @ name @ ''] File exists: '' @ p) st))"
    by (simp only: check_sized_def bind.simps)
  then show ?thesis by blast
qed

section \<open>A background colour hides the background image\<close>

lemma about_background_iff:
  "about_background (s, m) \<longleftrightarrow> (\<exists>r. m = ''[Android Background Image]'' @ r)"
  by (simp only: about_background_def startsWith_iff snd_conv)

lemma keeps_bind:
  assumes "filter P (findings (final r)) = X"
    and "\<And>x st. r = Next x st \<Longrightarrow> filter P (findings (final (f x st))) = filter P (findings st)"
  shows "filter P (findings (final (bind r f))) = X"
  using assms by (cases r) auto

lemma final_bind_Next:
  "final (bind r (\<lambda>x st1. Next y st1)) = final r"
  by (cases r) simp_all

lemma not_background_msgs:
  assumes "name \<in> {''Global Icon'', ''Android Foreground Image'', ''iOS Specific Icon'', ''Splash Screen''}"
  shows "\<not> about_background (s, CHR ''['' # name @ r)"
  using assms by (auto simp: about_background_def)

lemma not_background_checkDimensions:
  assumes "name \<in> {''Global Icon'', ''Android Foreground Image'', ''iOS Specific Icon'', ''Splash Screen''}"
  shows "filter about_background (findings (checkDimensions e fp name w h st))
           = filter about_background (findings st)"
  using checkDimensions_cases [of e fp name w h st]
  by (elim disjE exE) (simp_all add: not_background_msgs [OF assms])

lemma not_background_checkFileExistence:
  assumes "name \<in> {''Global Icon'', ''Android Foreground Image'', ''iOS Specific Icon'', ''Splash Screen''}"
  shows "filter about_background (findings (final (checkFileExistence e fp name st)))
           = filter about_background (findings st)"
  using checkFileExistence_cases [of e fp name st]
  by (elim disjE exE) (simp_all add: not_background_msgs [OF assms])

lemma not_background_check_sized:
  assumes "name \<in> {''Global Icon'', ''Android Foreground Image'', ''iOS Specific Icon'', ''Splash Screen''}"
  shows "filter about_background (findings (final (check_sized e fp name st)))
           = filter about_background (findings st)"
  using check_sized_cases [of e fp name st]
  by (elim disjE exE)
     (simp_all add: not_background_msgs [OF assms] not_background_checkDimensions [OF assms])

lemma not_background_steps:
  "filter about_background (findings (final (icon_check e expo st))) = filter about_background (findings st)"
  "filter about_background (findings (final (splash_check e expo st))) = filter about_background (findings st)"
  "filter about_background (findings (final (foreground_check e icon st))) = filter about_background (findings st)"
  "filter about_background (findings (final (iosIcon_check e expo st))) = filter about_background (findings st)"
  "filter about_background (findings (final (summary_assets st))) = filter about_background (findings st)"
  "filter about_background (findings (load_image_size e init)) = []"
proof -
  show "filter about_background (findings (final (icon_check e expo st))) = filter about_background (findings st)"
    by (simp add: icon_check_def not_background_check_sized about_background_def)
  show "filter about_background (findings (final (splash_check e expo st))) = filter about_background (findings st)"
    by (simp add: splash_check_def final_bind_Next not_background_checkFileExistence
        about_background_def)
  show "filter about_background (findings (final (foreground_check e icon st))) = filter about_background (findings st)"
    by (simp add: foreground_check_def not_background_check_sized about_background_def)
  show "filter about_background (findings (final (iosIcon_check e expo st))) = filter about_background (findings st)"
    by (simp add: iosIcon_check_def not_background_check_sized)
  show "filter about_background (findings (final (summary_assets st))) = filter about_background (findings st)"
    by (simp add: summary_assets_effect)
  show "filter about_background (findings (load_image_size e init)) = []"
    by (simp add: load_image_size_def about_background_def image_size_missing_def split: option.splits)
qed

lemma load_config_findings:
  assumes "load_config e st = Next expo st1"
  shows "findings st1 = findings st"
  using assms
  by (auto simp: load_config_def Let_def split: if_splits sum.splits option.splits)

lemma truthy_get_opt: "truthy (get_opt v k) \<Longrightarrow> truthy v"
proof (cases v)
  case None
  then show "truthy (get_opt v k) \<Longrightarrow> truthy v" by simp
next
  case (Some j)
  then show "truthy (get_opt v k) \<Longrightarrow> truthy v" by (cases j) simp_all
qed

lemma not_background_colour:
  assumes "truthy (get_opt androidIcon ''backgroundColor'')"
  shows "filter about_background (findings (final (background_check e androidIcon st)))
           = filter about_background (findings st)"
  using assms by (simp add: background_check_def about_background_def split: sum.split)

lemma not_background_adaptive:
  assumes "truthy (get_opt (get_opt (get_opt expo ''android'') ''adaptiveIcon'') ''backgroundColor'')"
  shows "filter about_background (findings (final (adaptiveIcon_check e expo st)))
           = filter about_background (findings st)"
proof -
  have "truthy (get_opt (get_opt expo ''android'') ''adaptiveIcon'')"
    using assms by (rule truthy_get_opt)
  then have "adaptiveIcon_check e expo st
      = bind (foreground_check e (get_opt (get_opt expo ''android'') ''adaptiveIcon'') st)
          (\<lambda>_ st1. background_check e (get_opt (get_opt expo ''android'') ''adaptiveIcon'') st1)"
    by (simp add: adaptiveIcon_check_def Let_def)
  then show ?thesis
    by (simp only:) (rule keeps_bind, rule not_background_steps(3), rule not_background_colour [OF assms])
qed

lemma not_background_asset_checks:
  assumes "truthy (get_opt (get_opt (get_opt expo ''android'') ''adaptiveIcon'') ''backgroundColor'')"
  shows "filter about_background (findings (final (asset_checks e expo st)))
           = filter about_background (findings st)"
  unfolding asset_checks_def
  apply (rule keeps_bind, rule not_background_steps(1))
  apply (rule keeps_bind, rule not_background_steps(2))
  apply (rule keeps_bind, rule not_background_adaptive [OF assms])
  apply (rule not_background_steps(4))
  done

lemma background_image_findings:
  "filter about_background (findings (final (check_sized e fp ''Android Background Image'' init)))
     = findings (final (check_sized e fp ''Android Background Image'' init))"
proof -
  have dims: "filter about_background (findings (checkDimensions e p ''Android Background Image'' w h st))
                = findings (checkDimensions e p ''Android Background Image'' w h st)"
    if "filter about_background (findings st) = findings st" for p w h st
    using checkDimensions_cases [of e p "''Android Background Image''" w h st] that
    by (elim disjE exE) (simp_all add: about_background_def)
  show ?thesis
    using check_sized_cases [of e fp "''Android Background Image''" init]
    by (elim disjE exE) (simp_all add: about_background_def dims)
qed

text \<open>
  C9. When the adaptive icon has a truthy \<open>backgroundColor\<close>, the background check emits
  the PASS of the colour and nothing else (or raises, when the colour cannot be printed);
  its result depends neither on \<open>backgroundImage\<close> nor on the file system nor on the
  dimension probe; and no finding of the whole run is about the background image, whose
  findings all open with \<open>[Android Background Image]\<close>.
\<close>

theorem background_image_not_checked:
  assumes "truthy (get_opt androidIcon ''backgroundColor'')"
  shows "(interp (get_opt androidIcon ''backgroundColor'') = Inr t \<longrightarrow>
            background_check e androidIcon st
              = Next () (logStatus PASS (''Android Adaptive Icon background color is set: '' @ t) st))
       \<and> (interp (get_opt androidIcon ''backgroundColor'') = Inl m \<longrightarrow>
            background_check e androidIcon st = Throw m st)
       \<and> (get_opt androidIcon' ''backgroundColor'' = get_opt androidIcon ''backgroundColor'' \<longrightarrow>
            background_check e' androidIcon' st = background_check e androidIcon st)
       \<and> filter about_background (findings (final (background_check e androidIcon st)))
            = filter about_background (findings st)
       \<and> (load_config e (load_image_size e init) = Next expo st1
            \<and> get_opt (get_opt expo ''android'') ''adaptiveIcon'' = androidIcon \<longrightarrow>
            filter about_background (findings (final (check_assets e))) = [])
       \<and> about_background (s, msg) = (\<exists>r. msg = ''[Android Background Image]'' @ r)
       \<and> filter about_background (findings (final (check_sized e' fp ''Android Background Image'' init)))
            = findings (final (check_sized e' fp ''Android Background Image'' init))"
  (is "?A \<and> ?B \<and> ?C \<and> ?D \<and> ?E \<and> ?F \<and> ?G")
proof -
  have a: ?A and b: ?B
    using assms by (simp_all add: background_check_def)
  have c: ?C
    using assms by (simp add: background_check_def)
  have d: ?D
    by (rule not_background_colour [OF assms])
  have e: ?E
  proof
    assume h: "load_config e (load_image_size e init) = Next expo st1
                 \<and> get_opt (get_opt expo ''android'') ''adaptiveIcon'' = androidIcon"
    then have col: "truthy (get_opt (get_opt (get_opt expo ''android'') ''adaptiveIcon'') ''backgroundColor'')"
      using assms by simp
    from h have "load_config e (load_image_size e init) = Next expo st1" ..
    then have "findings st1 = findings (load_image_size e init)"
      by (rule load_config_findings)
    then have st1: "filter about_background (findings st1) = []"
      by (simp add: not_background_steps(6))
    from h have run: "check_assets e = bind (asset_checks e expo st1) (\<lambda>_ st2. summary_assets st2)"
      by (simp add: check_assets_def run_assets_def)
    have "filter about_background (findings (final (asset_checks e expo st1))) = []"
      using not_background_asset_checks [OF col, of e st1] st1 by simp
    then show "filter about_background (findings (final (check_assets e))) = []"
      unfolding run by (rule keeps_bind) (rule not_background_steps(5))
  qed
  have f: ?F
    by (rule about_background_iff)
  have g: ?G
    by (rule background_image_findings)
  show ?thesis
    by (rule conjI [OF a conjI [OF b conjI [OF c conjI [OF d conjI [OF e conjI [OF f g]]]]]])
qed

theorem background_image_not_checked_witness:
  "background_check (assets_env (app_with_icons icon_with_both) sample_files True)
       (Some (JObj icon_with_both)) init
     = Next () (logStatus PASS ''Android Adaptive Icon background color is set: #ffffff'' init)
   \<and> background_check (assets_env (app_with_icons icon_with_both) (''assets/bg.png'' # sample_files) False)
       (Some (JObj [(''backgroundColor'', JStr ''#ffffff'')])) init
     = background_check (assets_env (app_with_icons icon_with_both) sample_files True)
         (Some (JObj icon_with_both)) init
   \<and> filter about_background
        (findings (final (check_assets (assets_env (app_with_icons icon_with_both) sample_files True)))) = []
   \<and> findings (final (check_assets (assets_env (app_with_icons icon_with_both) sample_files True)))
     = [(PASS, ''[Global Icon] File exists: assets/icon.png''),
        (PASS, ''[Global Icon] Dimensions are correct (1024x1024).''),
        (PASS, ''[Splash Screen] File exists: assets/splash.png''),
        (PASS, ''[Android Foreground Image] File exists: assets/fg.png''),
        (PASS, ''[Android Foreground Image] Dimensions are correct (1024x1024).''),
        (PASS, ''Android Adaptive Icon background color is set: #ffffff'')]
   \<and> about_background (FAIL, ''[Android Background Image] File not found at path: assets/bg.png'')
   \<and> \<not> about_background (PASS, ''Android Adaptive Icon background color is set: #ffffff'')
   \<and> filter about_background
        (findings (final (check_assets (assets_env (app_with_icons icon_with_image) sample_files True))))
     = [(FAIL, ''[Android Background Image] File not found at path: assets/bg.png'')]"
  (is "?A \<and> ?B \<and> ?C \<and> ?D \<and> ?E \<and> ?F \<and> ?G")
proof -
  let ?b = "assets_env (app_with_icons icon_with_both) sample_files True"
  let ?b' = "assets_env (app_with_icons icon_with_both) (''assets/bg.png'' # sample_files) False"
  have col: "truthy (get_opt (Some (JObj icon_with_both)) ''backgroundColor'')"
    by (simp add: icon_with_both_def)
  have printed: "interp (get_opt (Some (JObj icon_with_both)) ''backgroundColor'') = Inr ''#ffffff''"
    by (simp add: icon_with_both_def interp_def)
  have same: "get_opt (Some (JObj [(''backgroundColor'', JStr ''#ffffff'')])) ''backgroundColor''
                = get_opt (Some (JObj icon_with_both)) ''backgroundColor''"
    by (simp add: icon_with_both_def)
  have cfg: "load_config ?b (load_image_size ?b init)
               = Next (Some (expo_with_icons icon_with_both))
                   (console_log (''--- Validating Expo Assets ---'' @ [CHR 0x0A]) (load_image_size ?b init))"
    by (rule assets_load_config)
  have icon: "get_opt (get_opt (Some (expo_with_icons icon_with_both)) ''android'') ''adaptiveIcon''
                = Some (JObj icon_with_both)"
    by (simp add: expo_with_icons_def)
  note T = background_image_not_checked [OF col, where e = ?b and st = init and t = "''#ffffff''"
             and e' = ?b' and androidIcon' = "Some (JObj [(''backgroundColor'', JStr ''#ffffff'')])"
             and expo = "Some (expo_with_icons icon_with_both)"
             and ?st1.0 = "console_log (''--- Validating Expo Assets ---'' @ [CHR 0x0A]) (load_image_size ?b init)"]
  have a: ?A using T printed by simp
  have b: ?B using T same by simp
  have c: ?C using T cfg icon by simp
  have d: ?D by (simp add: sample_run_both)
  have e: ?E
    using background_image_not_checked [OF col, where s = FAIL
            and msg = "''[Android Background Image] File not found at path: assets/bg.png''"]
    by simp
  have f: ?F
    using background_image_not_checked [OF col, where s = PASS
            and msg = "''Android Adaptive Icon background color is set: #ffffff''"]
    by simp
  have g: ?G
    by (simp add: check_assets_def load_image_size_def run_assets_def assets_load_config
        asset_checks_def assets_icon assets_splash assets_adaptive_image assets_no_ios
        summary_assets_effect about_background_def)
  show ?thesis
    by (rule conjI [OF a conjI [OF b conjI [OF c conjI [OF d conjI [OF e conjI [OF f g]]]]]])
qed

section \<open>The dimension probe\<close>

lemma is_dimension_finding_iff:
  "is_dimension_finding (s, msg) \<longleftrightarrow>
     (\<exists>name \<in> set [''Global Icon'', ''Android Foreground Image'', ''Android Background Image'',
                      ''iOS Specific Icon''].
      \<exists>opening \<in> set [''Invalid dimensions.'', ''Dimensions are correct'',
                         ''Could not parse image dimensions.''].
      \<exists>r. msg = ''['' @ name @ ''] '' @ opening @ r)"
  by (simp only: is_dimension_finding_def sized_names_def dimension_openings_def list_ex_iff
      startsWith_iff snd_conv append_assoc)

lemma dimension_msgs:
  assumes "name \<in> set sized_names"
  shows "is_dimension_finding (s, ''['' @ name @ ''] Could not parse image dimensions.'' @ r)"
    and "is_dimension_finding (s, ''['' @ name @ ''] Invalid dimensions.'' @ r)"
    and "is_dimension_finding (s, ''['' @ name @ ''] Dimensions are correct'' @ r)"
  using assms by (auto simp: is_dimension_finding_def sized_names_def dimension_openings_def)

lemma existence_msgs:
  assumes "name \<in> set (''Splash Screen'' # sized_names)"
  shows "\<not> is_dimension_finding (s, ''['' @ name @ ''] File not found at path: '' @ p)"
    and "\<not> is_dimension_finding (s, ''['' @ name @ ''] File exists: '' @ p)"
  using assms by (auto simp: is_dimension_finding_def sized_names_def dimension_openings_def)

lemma not_dimension_plain:
  "c \<noteq> CHR ''['' \<Longrightarrow> \<not> is_dimension_finding (s, c # r)"
  by (simp add: is_dimension_finding_def sized_names_def dimension_openings_def)

text \<open>The two helper functions again, with their findings classified.\<close>

lemma checkDimensions_dimension:
  assumes "name \<in> set sized_names"
  shows "checkDimensions e fp name w h st = st
         \<or> (\<exists>s m. is_dimension_finding (s, m) \<and> checkDimensions e fp name w h st = logStatus s m st)"
  using checkDimensions_cases [of e fp name w h st]
  by (elim disjE exE) (blast intro: dimension_msgs [OF assms])+

lemma checkFileExistence_uniform:
  "(\<exists>m. \<forall>st. checkFileExistence e fp name st = Throw m st)
   \<or> (\<exists>p. \<forall>st. checkFileExistence e fp name st
          = Next None (logStatus FAIL (''['' @ name @ ''] File not found at path: '' @ p) st))
   \<or> (\<exists>p full. \<forall>st. checkFileExistence e fp name st
          = Next (Some full) (logStatus PASS (''['' @ name @ ''] File exists: '' @ p) st))"
proof (cases fp)
  case None
  then show ?thesis by (simp add: checkFileExistence_def)
next
  case (Some j)
  then show ?thesis by (cases j) (simp_all add: checkFileExistence_def Let_def logStatus_inject)
qed

lemma checkFileExistence_existence:
  assumes "name \<in> set (''Splash Screen'' # sized_names)"
  shows "(\<exists>m. \<forall>st. checkFileExistence e fp name st = Throw m st)
   \<or> (\<exists>m. \<not> is_dimension_finding (FAIL, m)
          \<and> (\<forall>st. checkFileExistence e fp name st = Next None (logStatus FAIL m st)))
   \<or> (\<exists>m full. \<not> is_dimension_finding (PASS, m)
          \<and> (\<forall>st. checkFileExistence e fp name st = Next (Some full) (logStatus PASS m st)))"
  using checkFileExistence_uniform [of e fp name]
proof (elim disjE exE)
  fix m
  assume "\<forall>st. checkFileExistence e fp name st = Throw m st"
  then show ?thesis by blast
next
  fix p
  assume a: "\<forall>st. checkFileExistence e fp name st
               = Next None (logStatus FAIL (''['' @ name @ ''] File not found at path: '' @ p) st)"
  have "\<not> is_dimension_finding (FAIL, ''['' @ name @ ''] File not found at path: '' @ p)"
    by (rule existence_msgs(1) [OF assms])
  with a show ?thesis by blast
next
  fix p full
  assume a: "\<forall>st. checkFileExistence e fp name st
               = Next (Some full) (logStatus PASS (''['' @ name @ ''] File exists: '' @ p) st)"
  have "\<not> is_dimension_finding (PASS, ''['' @ name @ ''] File exists: '' @ p)"
    by (rule existence_msgs(2) [OF assms])
  with a show ?thesis by blast
qed

lemma checkFileExistence_ignores_probe:
  "checkFileExistence (e\<lparr>sizeOf := sz\<rparr>) fp name st = checkFileExistence e fp name st"
  by (simp add: checkFileExistence_def split: option.split json.split)

text \<open>
  A run without the probe against the same run with a probe: the two end the same way, and
  the findings of the first are those of the second without the findings of
  \<open>checkDimensions\<close>, after a common opening \<open>pre\<close>.
\<close>

lemma skip_bind:
  fixes r r' :: "unit res"
  assumes "returns (r) = returns (r')
       \<and> findings (final (r)) = pre @ filter (\<lambda>f. \<not> is_dimension_finding f) (findings (final (r')))"
    and "\<And>st st'. findings st = pre @ filter (\<lambda>f. \<not> is_dimension_finding f) (findings st') \<Longrightarrow>
           returns (f () st) = returns (f' () st')
       \<and> findings (final (f () st)) = pre @ filter (\<lambda>f. \<not> is_dimension_finding f) (findings (final (f' () st')))"
  shows "returns (bind r f) = returns (bind r' f')
       \<and> findings (final (bind r f)) = pre @ filter (\<lambda>f. \<not> is_dimension_finding f) (findings (final (bind r' f')))"
  using assms by (cases r; cases r') auto

lemma skip_checkDimensions:
  assumes "name \<in> set sized_names"
  shows "filter (\<lambda>f. \<not> is_dimension_finding f) (findings (checkDimensions e fp name w h st))
           = filter (\<lambda>f. \<not> is_dimension_finding f) (findings st)"
  using checkDimensions_dimension [OF assms, of e fp w h st] by auto

lemma no_probe_checkDimensions:
  "sizeOf e = None \<Longrightarrow> checkDimensions e fp name w h st = st"
  by (simp add: checkDimensions_def)

lemma skip_check_sized:
  assumes "sizeOf e = None" and "name \<in> set sized_names"
    and "findings st = pre @ filter (\<lambda>f. \<not> is_dimension_finding f) (findings st')"
  shows "returns (check_sized e fp name st) = returns (check_sized (e\<lparr>sizeOf := Some probe\<rparr>) fp name st')
       \<and> findings (final (check_sized e fp name st)) = pre @ filter (\<lambda>f. \<not> is_dimension_finding f) (findings (final (check_sized (e\<lparr>sizeOf := Some probe\<rparr>) fp name st')))"
proof -
  have n: "name \<in> set (''Splash Screen'' # sized_names)"
    using assms(2) by simp
  show ?thesis
    using checkFileExistence_existence [OF n, of e fp] assms(3)
    by (elim disjE exE conjE)
       (simp_all add: check_sized_def checkFileExistence_ignores_probe
          no_probe_checkDimensions [OF assms(1)] skip_checkDimensions [OF assms(2)])
qed

lemma skip_splash_file:
  assumes "findings st = pre @ filter (\<lambda>f. \<not> is_dimension_finding f) (findings st')"
  shows "returns (bind (checkFileExistence e fp ''Splash Screen'' st) (\<lambda>fullPath st1. Next () st1)) = returns (bind (checkFileExistence (e\<lparr>sizeOf := Some probe\<rparr>) fp ''Splash Screen'' st') (\<lambda>fullPath st1. Next () st1))
       \<and> findings (final (bind (checkFileExistence e fp ''Splash Screen'' st) (\<lambda>fullPath st1. Next () st1))) = pre @ filter (\<lambda>f. \<not> is_dimension_finding f) (findings (final (bind (checkFileExistence (e\<lparr>sizeOf := Some probe\<rparr>) fp ''Splash Screen'' st') (\<lambda>fullPath st1. Next () st1))))"
proof -
  have n: "''Splash Screen'' \<in> set (''Splash Screen'' # sized_names)"
    by simp
  show ?thesis
    using checkFileExistence_existence [OF n, of e fp] assms
    by (elim disjE exE conjE) (simp_all add: checkFileExistence_ignores_probe)
qed

lemma sized_names_mem:
  "''Global Icon'' \<in> set sized_names"
  "''Android Foreground Image'' \<in> set sized_names"
  "''Android Background Image'' \<in> set sized_names"
  "''iOS Specific Icon'' \<in> set sized_names"
  by (simp_all add: sized_names_def)

lemma skip_icon:
  assumes "sizeOf e = None" and "findings st = pre @ filter (\<lambda>f. \<not> is_dimension_finding f) (findings st')"
  shows "returns (icon_check e expo st) = returns (icon_check (e\<lparr>sizeOf := Some probe\<rparr>) expo st')
       \<and> findings (final (icon_check e expo st)) = pre @ filter (\<lambda>f. \<not> is_dimension_finding f) (findings (final (icon_check (e\<lparr>sizeOf := Some probe\<rparr>) expo st')))"
  using assms(2)
  by (simp add: icon_check_def skip_check_sized [OF assms(1) sized_names_mem(1)] not_dimension_plain)

lemma skip_splash:
  assumes "sizeOf e = None" and "findings st = pre @ filter (\<lambda>f. \<not> is_dimension_finding f) (findings st')"
  shows "returns (splash_check e expo st) = returns (splash_check (e\<lparr>sizeOf := Some probe\<rparr>) expo st')
       \<and> findings (final (splash_check e expo st)) = pre @ filter (\<lambda>f. \<not> is_dimension_finding f) (findings (final (splash_check (e\<lparr>sizeOf := Some probe\<rparr>) expo st')))"
  using assms(2)
  by (simp add: splash_check_def skip_splash_file not_dimension_plain)

lemma skip_foreground:
  assumes "sizeOf e = None" and "findings st = pre @ filter (\<lambda>f. \<not> is_dimension_finding f) (findings st')"
  shows "returns (foreground_check e icon st) = returns (foreground_check (e\<lparr>sizeOf := Some probe\<rparr>) icon st')
       \<and> findings (final (foreground_check e icon st)) = pre @ filter (\<lambda>f. \<not> is_dimension_finding f) (findings (final (foreground_check (e\<lparr>sizeOf := Some probe\<rparr>) icon st')))"
  using assms(2)
  by (simp add: foreground_check_def skip_check_sized [OF assms(1) sized_names_mem(2)] not_dimension_plain)

lemma skip_background:
  assumes "sizeOf e = None" and "findings st = pre @ filter (\<lambda>f. \<not> is_dimension_finding f) (findings st')"
  shows "returns (background_check e icon st) = returns (background_check (e\<lparr>sizeOf := Some probe\<rparr>) icon st')
       \<and> findings (final (background_check e icon st)) = pre @ filter (\<lambda>f. \<not> is_dimension_finding f) (findings (final (background_check (e\<lparr>sizeOf := Some probe\<rparr>) icon st')))"
  using assms(2)
  by (simp add: background_check_def skip_check_sized [OF assms(1) sized_names_mem(3)] not_dimension_plain split: sum.split)

lemma skip_ios:
  assumes "sizeOf e = None" and "findings st = pre @ filter (\<lambda>f. \<not> is_dimension_finding f) (findings st')"
  shows "returns (iosIcon_check e expo st) = returns (iosIcon_check (e\<lparr>sizeOf := Some probe\<rparr>) expo st')
       \<and> findings (final (iosIcon_check e expo st)) = pre @ filter (\<lambda>f. \<not> is_dimension_finding f) (findings (final (iosIcon_check (e\<lparr>sizeOf := Some probe\<rparr>) expo st')))"
  using assms(2)
  by (simp add: iosIcon_check_def skip_check_sized [OF assms(1) sized_names_mem(4)])

lemma skip_adaptive:
  assumes "sizeOf e = None" and "findings st = pre @ filter (\<lambda>f. \<not> is_dimension_finding f) (findings st')"
  shows "returns (adaptiveIcon_check e expo st) = returns (adaptiveIcon_check (e\<lparr>sizeOf := Some probe\<rparr>) expo st')
       \<and> findings (final (adaptiveIcon_check e expo st)) = pre @ filter (\<lambda>f. \<not> is_dimension_finding f) (findings (final (adaptiveIcon_check (e\<lparr>sizeOf := Some probe\<rparr>) expo st')))"
proof (cases "truthy (get_opt (get_opt expo ''android'') ''adaptiveIcon'')")
  case True
  then show ?thesis
    unfolding adaptiveIcon_check_def Let_def if_P [OF True]
    by (intro skip_bind skip_foreground [OF assms(1)] skip_background [OF assms(1)] assms(2))
next
  case False
  then show ?thesis
    using assms(2) by (simp add: adaptiveIcon_check_def not_dimension_plain)
qed

lemma skip_asset_checks:
  assumes "sizeOf e = None" and "findings st = pre @ filter (\<lambda>f. \<not> is_dimension_finding f) (findings st')"
  shows "returns (asset_checks e expo st) = returns (asset_checks (e\<lparr>sizeOf := Some probe\<rparr>) expo st')
       \<and> findings (final (asset_checks e expo st)) = pre @ filter (\<lambda>f. \<not> is_dimension_finding f) (findings (final (asset_checks (e\<lparr>sizeOf := Some probe\<rparr>) expo st')))"
  unfolding asset_checks_def
  by (intro skip_bind skip_icon [OF assms(1)] skip_splash [OF assms(1)] skip_adaptive [OF assms(1)]
      skip_ios [OF assms(1)] assms(2))

end
